theory Spec2Isabelle
  imports Main "HOL-Library.Char_ord" "HOL-Library.List_Lexorder"
begin

section \<open>Values of the Python program\<close>

text \<open>
  The program is \<^verbatim>\<open>update_patrons.py\<close>: it resolves two credentials, walks the pages
  of a membership API, buckets the patrons by pledge and payment date, and writes three
  tabular files and one structured file.

  Python strings are modelled as HOL strings, which are the strings of characters with
  a code below 256. The order on them is the lexicographic order of \<^verbatim>\<open>List_Lexorder\<close>
  over the character codes, which is how Python compares \<^verbatim>\<open>str\<close> values (a proper
  prefix is smaller).
\<close>

datatype pyerr = ValueError | TypeError | OverflowError | KeyError

subsection \<open>String helpers of the standard library\<close>

text \<open>\<^verbatim>\<open>s.replace('Z', '+00:00')\<close>: every occurrence is replaced.\<close>

definition replace_Z :: "string \<Rightarrow> string" where
  "replace_Z s = concat (map (\<lambda>c. if c = CHR ''Z'' then ''+00:00'' else [c]) s)"

text \<open>
  \<^verbatim>\<open>str.lower()\<close> on letters of the ASCII range: A to Z are mapped to a to z and
  every other character is kept. Python's mapping of the other letters comes from the
  Unicode tables, so the program below takes the function as a parameter, and this one
  is the value it is run with on the concrete inputs.
\<close>

definition lower_char :: "char \<Rightarrow> char" where
  "lower_char c =
     (case map_of (zip ''ABCDEFGHIJKLMNOPQRSTUVWXYZ'' ''abcdefghijklmnopqrstuvwxyz'') c of
        None \<Rightarrow> c
      | Some l \<Rightarrow> l)"

definition lower :: "string \<Rightarrow> string" where
  "lower s = map lower_char s"

subsection \<open>Decimal numbers in strings\<close>

definition digit_val :: "char \<Rightarrow> nat option" where
  "digit_val c =
     (let n = (of_char c :: nat) in if 48 \<le> n \<and> n \<le> 57 then Some (n - 48) else None)"

fun digits_acc :: "nat \<Rightarrow> string \<Rightarrow> nat option" where
  "digits_acc acc [] = Some acc"
| "digits_acc acc (c # cs) =
     (case digit_val c of None \<Rightarrow> None | Some d \<Rightarrow> digits_acc (10 * acc + d) cs)"

text \<open>The value of a non-empty string of decimal digits, and nothing for any other string.\<close>

definition digits :: "string \<Rightarrow> nat option" where
  "digits s = (if s = [] then None else digits_acc 0 s)"

text \<open>The character of a decimal digit.\<close>

definition digit_char :: "nat \<Rightarrow> char" where
  "digit_char d = ''0123456789'' ! (d mod 10)"

text \<open>A number below 100 written with two digits (\<^verbatim>\<open>%m\<close> and \<^verbatim>\<open>%d\<close> of strftime).\<close>

definition two_digits :: "nat \<Rightarrow> string" where
  "two_digits n = [digit_char (n div 10 mod 10), digit_char (n mod 10)]"

text \<open>
  A year between 1 and 9999 written in decimal without padding, as the C library's
  \<^verbatim>\<open>%Y\<close> does on glibc; from year 1000 on these are the four digits of the year.
\<close>

definition year_digits :: "nat \<Rightarrow> string" where
  "year_digits y =
     (if y < 10 then [digit_char y]
      else if y < 100 then [digit_char (y div 10), digit_char (y mod 10)]
      else if y < 1000 then
        [digit_char (y div 100), digit_char (y div 10 mod 10), digit_char (y mod 10)]
      else [digit_char (y div 1000 mod 10), digit_char (y div 100 mod 10),
            digit_char (y div 10 mod 10), digit_char (y mod 10)])"

section \<open>The datetime library\<close>

text \<open>
  A \<^verbatim>\<open>datetime\<close> value. \<open>tzinfo\<close> is the UTC offset in microseconds of an aware
  value and \<open>None\<close> for a naive one.
\<close>

record datetime =
  year :: nat
  month :: nat
  day :: nat
  hour :: nat
  minute :: nat
  second :: nat
  microsecond :: nat
  tzinfo :: "int option"

definition is_leap :: "nat \<Rightarrow> bool" where
  "is_leap y = (y mod 4 = 0 \<and> (y mod 100 \<noteq> 0 \<or> y mod 400 = 0))"

definition days_in_month_tab :: "nat \<Rightarrow> nat" where
  "days_in_month_tab m =
     (if m = 2 then 28 else if m = 4 \<or> m = 6 \<or> m = 9 \<or> m = 11 then 30 else 31)"

definition days_in_month :: "nat \<Rightarrow> nat \<Rightarrow> nat" where
  "days_in_month y m = (if m = 2 \<and> is_leap y then 29 else days_in_month_tab m)"

definition days_before_month_tab :: "nat \<Rightarrow> nat" where
  "days_before_month_tab m = sum_list (map days_in_month_tab [1..<m])"

definition days_before_year :: "nat \<Rightarrow> nat" where
  "days_before_year y = (let z = y - 1 in z * 365 + z div 4 - z div 100 + z div 400)"

definition days_before_month :: "nat \<Rightarrow> nat \<Rightarrow> nat" where
  "days_before_month y m = days_before_month_tab m + (if m > 2 \<and> is_leap y then 1 else 0)"

text \<open>The proleptic Gregorian ordinal of a date: 1 for the first of January of year 1.\<close>

definition ymd2ord :: "nat \<Rightarrow> nat \<Rightarrow> nat \<Rightarrow> nat" where
  "ymd2ord y m d = days_before_year y + days_before_month y m + d"

definition MAXORDINAL :: nat where
  "MAXORDINAL = 3652059"

text \<open>The inverse, as the library computes it from the cycles of 400, 100, 4 and 1 years.\<close>

definition ord2ymd :: "nat \<Rightarrow> nat \<times> nat \<times> nat" where
  "ord2ymd n0 =
     (let n = n0 - 1;
          n400 = n div 146097; n = n mod 146097;
          n100 = n div 36524; n = n mod 36524;
          n4 = n div 1461; n = n mod 1461;
          n1 = n div 365; n = n mod 365;
          y = n400 * 400 + 1 + n100 * 100 + n4 * 4 + n1
      in if n1 = 4 \<or> n100 = 4 then (y - 1, 12, 31)
         else
           (let leapyear = (n1 = 3 \<and> (n4 \<noteq> 24 \<or> n100 = 3));
                m = (n + 50) div 32;
                preceding = days_before_month_tab m + (if m > 2 \<and> leapyear then 1 else 0)
            in if preceding > n
               then (let m' = m - 1;
                         preceding' = preceding -
                           (days_in_month_tab m' + (if m' = 2 \<and> leapyear then 1 else 0))
                     in (y, m', n - preceding' + 1))
               else (y, m, n - preceding + 1)))"

text \<open>
  The constructor's range checks: a field out of range raises \<^verbatim>\<open>ValueError\<close>. The
  offset of a time zone must be strictly within one day.
\<close>

definition make_datetime ::
  "nat \<Rightarrow> nat \<Rightarrow> nat \<Rightarrow> nat \<Rightarrow> nat \<Rightarrow> nat \<Rightarrow> nat \<Rightarrow> int option \<Rightarrow> pyerr + datetime" where
  "make_datetime y m d hh mi ss us tz =
     (if 1 \<le> y \<and> y \<le> 9999 \<and> 1 \<le> m \<and> m \<le> 12 \<and> 1 \<le> d \<and> d \<le> days_in_month y m
         \<and> hh < 24 \<and> mi < 60 \<and> ss < 60 \<and> us < 1000000
         \<and> (case tz of None \<Rightarrow> True | Some off \<Rightarrow> \<bar>off\<bar> < 86400000000)
      then Inr \<lparr>year = y, month = m, day = d, hour = hh, minute = mi, second = ss,
                microsecond = us, tzinfo = tz\<rparr>
      else Inl ValueError)"

subsection \<open>Parsing\<close>

text \<open>
  \<^verbatim>\<open>datetime.strptime(s, '%Y-%m-%d')\<close>. The library matches the whole string against
  four digits, a dash, a month written \<^verbatim>\<open>1[0-2]|0[1-9]|[1-9]\<close>, a dash and a day written
  \<^verbatim>\<open>3[0-1]|[1-2]\d|0[1-9]|[1-9]| [1-9]\<close>, and then builds the date, which checks the
  ranges. Every failure is a \<^verbatim>\<open>ValueError\<close>.
\<close>

definition month_field :: "string \<Rightarrow> nat option" where
  "month_field ms =
     (case digits ms of
        None \<Rightarrow> None
      | Some m \<Rightarrow>
          if (length ms = 2 \<and> 1 \<le> m \<and> m \<le> 12) \<or> (length ms = 1 \<and> 1 \<le> m) then Some m
          else None)"

definition day_field :: "string \<Rightarrow> nat option" where
  "day_field ds =
     (case ds of
        [a, b] \<Rightarrow>
          if a = CHR '' '' then
            (case digit_val b of
               None \<Rightarrow> None
             | Some d \<Rightarrow> if 1 \<le> d then Some d else None)
          else
            (case digits ds of
               None \<Rightarrow> None
             | Some d \<Rightarrow> if 1 \<le> d \<and> d \<le> 31 then Some d else None)
      | [a] \<Rightarrow>
          (case digit_val a of
             None \<Rightarrow> None
           | Some d \<Rightarrow> if 1 \<le> d then Some d else None)
      | _ \<Rightarrow> None)"

definition strptime_ymd :: "string \<Rightarrow> pyerr + datetime" where
  "strptime_ymd s =
     (let ys = take 4 s; r1 = drop 4 s in
      if length ys \<noteq> 4 \<or> r1 = [] \<or> hd r1 \<noteq> CHR ''-'' then Inl ValueError
      else
        (let r2 = tl r1;
             ms = takeWhile (\<lambda>c. c \<noteq> CHR ''-'') r2;
             r3 = dropWhile (\<lambda>c. c \<noteq> CHR ''-'') r2
         in if r3 = [] then Inl ValueError
            else
              (case (digits ys, month_field ms, day_field (tl r3)) of
                 (Some y, Some m, Some d) \<Rightarrow> make_datetime y m d 0 0 0 0 None
               | _ \<Rightarrow> Inl ValueError)))"

text \<open>
  \<^verbatim>\<open>datetime.fromisoformat\<close> as the library reference of Python 3.7 to 3.10 gives it:
  it reads \<^verbatim>\<open>YYYY-MM-DD[*HH[:MM[:SS[.fff[fff]]]][+HH:MM[:SS[.ffffff]]]]\<close>, where
  \<^verbatim>\<open>*\<close> is any one character, and a string with an offset gives an aware value. From
  Python 3.11 on the function reads more strings (other lengths of the fraction, dates
  and times without separators, offsets without a colon), so the program below takes the
  parser as a parameter, and this one is the value it is run with on the concrete inputs.
\<close>

fun two :: "string \<Rightarrow> (nat \<times> string) option" where
  "two (a # b # r) =
     (case (digit_val a, digit_val b) of
        (Some x, Some y) \<Rightarrow> Some (10 * x + y, r)
      | _ \<Rightarrow> None)"
| "two _ = None"

definition parse_fraction :: "string \<Rightarrow> nat option" where
  "parse_fraction f =
     (if length f = 3 then map_option (\<lambda>v. v * 1000) (digits f)
      else if length f = 6 then digits f
      else None)"

definition parse_hh_mm_ss_ff :: "string \<Rightarrow> (nat \<times> nat \<times> nat \<times> nat) option" where
  "parse_hh_mm_ss_ff s =
     (case two s of
        None \<Rightarrow> None
      | Some (hh, r1) \<Rightarrow>
          if r1 = [] then Some (hh, 0, 0, 0)
          else if hd r1 \<noteq> CHR '':'' then None
          else
            (case two (tl r1) of
               None \<Rightarrow> None
             | Some (mi, r2) \<Rightarrow>
                 if r2 = [] then Some (hh, mi, 0, 0)
                 else if hd r2 \<noteq> CHR '':'' then None
                 else
                   (case two (tl r2) of
                      None \<Rightarrow> None
                    | Some (ss, r3) \<Rightarrow>
                        if r3 = [] then Some (hh, mi, ss, 0)
                        else if hd r3 \<noteq> CHR ''.'' then None
                        else map_option (\<lambda>us. (hh, mi, ss, us)) (parse_fraction (tl r3)))))"

definition is_sign :: "char \<Rightarrow> bool" where
  "is_sign c = (c = CHR ''+'' \<or> c = CHR ''-'')"

definition parse_isoformat_time :: "string \<Rightarrow> ((nat \<times> nat \<times> nat \<times> nat) \<times> int option) option" where
  "parse_isoformat_time t =
     (let timestr = takeWhile (\<lambda>c. \<not> is_sign c) t;
          rest = dropWhile (\<lambda>c. \<not> is_sign c) t
      in case parse_hh_mm_ss_ff timestr of
           None \<Rightarrow> None
         | Some comps \<Rightarrow>
             if rest = [] then Some (comps, None)
             else
               (let tzstr = tl rest in
                if length tzstr \<noteq> 5 \<and> length tzstr \<noteq> 8 \<and> length tzstr \<noteq> 15 then None
                else
                  (case parse_hh_mm_ss_ff tzstr of
                     None \<Rightarrow> None
                   | Some (hh, mi, ss, us) \<Rightarrow>
                       (let off = int ((hh * 3600 + mi * 60 + ss) * 1000000 + us)
                        in Some (comps, Some (if hd rest = CHR ''-'' then - off else off))))))"

definition parse_isoformat_date :: "string \<Rightarrow> (nat \<times> nat \<times> nat) option" where
  "parse_isoformat_date d =
     (if length d \<noteq> 10 \<or> d ! 4 \<noteq> CHR ''-'' \<or> d ! 7 \<noteq> CHR ''-'' then None
      else
        (case (digits (take 4 d), digits (take 2 (drop 5 d)), digits (drop 8 d)) of
           (Some y, Some m, Some dd) \<Rightarrow> Some (y, m, dd)
         | _ \<Rightarrow> None))"

definition fromisoformat :: "string \<Rightarrow> pyerr + datetime" where
  "fromisoformat s =
     (case parse_isoformat_date (take 10 s) of
        None \<Rightarrow> Inl ValueError
      | Some (y, m, d) \<Rightarrow>
          if length s = 10 then make_datetime y m d 0 0 0 0 None
          else
            (case parse_isoformat_time (drop 11 s) of
               None \<Rightarrow> Inl ValueError
             | Some ((hh, mi, ss, us), tz) \<Rightarrow> make_datetime y m d hh mi ss us tz))"

subsection \<open>Arithmetic, comparison and formatting\<close>

text \<open>
  \<^verbatim>\<open>dt + timedelta(days=n)\<close>: the date moves by \<open>n\<close> days, the time of day and the
  zone stay. A result after the last day of year 9999 raises \<^verbatim>\<open>OverflowError\<close>.
\<close>

definition add_days :: "datetime \<Rightarrow> nat \<Rightarrow> pyerr + datetime" where
  "add_days dt n =
     (let ord = ymd2ord (year dt) (month dt) (day dt) + n in
      if ord > MAXORDINAL then Inl OverflowError
      else (case ord2ymd ord of (y, m, d) \<Rightarrow> Inr (dt\<lparr>year := y, month := m, day := d\<rparr>)))"

definition dt_fields :: "datetime \<Rightarrow> nat list" where
  "dt_fields dt = [year dt, month dt, day dt, hour dt, minute dt, second dt, microsecond dt]"

definition utc_micros :: "datetime \<Rightarrow> int \<Rightarrow> int" where
  "utc_micros dt off =
     int ((((ymd2ord (year dt) (month dt) (day dt) * 24 + hour dt) * 60 + minute dt) * 60
            + second dt) * 1000000 + microsecond dt) - off"

text \<open>
  \<^verbatim>\<open>a > b\<close> on datetimes: two naive values compare field by field, two aware values
  compare as instants, and a naive with an aware value raises \<^verbatim>\<open>TypeError\<close>.
\<close>

definition dt_greater :: "datetime \<Rightarrow> datetime \<Rightarrow> pyerr + bool" where
  "dt_greater a b =
     (case (tzinfo a, tzinfo b) of
        (None, None) \<Rightarrow> Inr (dt_fields b < dt_fields a)
      | (Some oa, Some ob) \<Rightarrow> Inr (utc_micros b ob < utc_micros a oa)
      | _ \<Rightarrow> Inl TypeError)"

text \<open>\<^verbatim>\<open>dt.strftime('%Y-%m-%d')\<close>.\<close>

definition strftime_ymd :: "datetime \<Rightarrow> string" where
  "strftime_ymd dt = year_digits (year dt) @ ''-'' @ two_digits (month dt) @ ''-'' @ two_digits (day dt)"

text \<open>\<^verbatim>\<open>datetime.now()\<close> with no zone argument: the reading of the clock, naive.\<close>

definition datetime_now :: "datetime \<Rightarrow> datetime" where
  "datetime_now clock = clock\<lparr>tzinfo := None\<rparr>"

section \<open>The library as a parameter\<close>

text \<open>
  Three functions of the standard library are parameters of the model:
  \<^verbatim>\<open>datetime.fromisoformat\<close>, \<^verbatim>\<open>datetime.strptime\<close> with the format \<^verbatim>\<open>%Y-%m-%d\<close>, and
  \<^verbatim>\<open>str.lower\<close>. What they return depends on the version of Python and on the Unicode
  tables, not on the repository. A parser returns a datetime or raises; \<^verbatim>\<open>lower\<close>
  returns a string.
\<close>

record library =
  lib_fromisoformat :: "string \<Rightarrow> pyerr + datetime"
  lib_strptime_ymd :: "string \<Rightarrow> pyerr + datetime"
  lib_lower :: "string \<Rightarrow> string"

text \<open>
  The library with which the program is run on the concrete inputs below: the two parsers
  as the reference of Python 3.7 to 3.10 describes them, and \<^verbatim>\<open>lower\<close> on the letters
  A to Z. The strings of those inputs are read in the same way by the later versions of
  Python.
\<close>

definition python :: library where
  "python = \<lparr>lib_fromisoformat = fromisoformat, lib_strptime_ymd = strptime_ymd,
              lib_lower = lower\<rparr>"

section \<open>Patrons and what the program prints\<close>

text \<open>
  A patron as the fetch stage builds it: a dictionary with these four keys, holding
  strings and an integer.
\<close>

record patron =
  member_id :: string
  displayed_name :: string
  last_payment_timestamp :: string
  pledge_amount_cents :: int

text \<open>Failures of an HTTP request; all of them are \<^verbatim>\<open>RequestException\<close>s.\<close>

datatype request_error = Timeout | ConnectionError | HTTPError nat | JSONDecodeError

text \<open>
  The lines the program prints, one constructor for each \<^verbatim>\<open>print\<close> of the source,
  with the values the line shows.
\<close>

datatype message =
    Config_warning pyerr
  | Token_not_set
  | Campaign_not_set
  | Fetched nat
  | Error_fetching request_error
  | Unknown_pledge int string
  | Bad_date string string pyerr
  | Fetching_banner
  | No_patrons_help
  | Generated_empty string
  | Categorizing_banner
  | Updated string nat
  | Generated string nat
  | Summary nat nat nat

section \<open>Credentials: \<^verbatim>\<open>load_config\<close>\<close>

text \<open>
  The surroundings of \<^verbatim>\<open>load_config\<close>: the environment variables, and the
  configuration file, which is absent (\<open>None\<close>) or which \<^verbatim>\<open>dotenv_values\<close> reads as a
  dictionary or fails to read. The dictionary gives a key a string, or Python's
  \<^verbatim>\<open>None\<close> when the file names the key without \<^verbatim>\<open>=\<close>; so a value of the dictionary,
  and a credential that \<^verbatim>\<open>load_config\<close> returns, is \<open>Some\<close> string or \<open>None\<close> for
  Python's \<^verbatim>\<open>None\<close>.
\<close>

type_synonym environ = "string \<rightharpoonup> string"

type_synonym config_file = "(pyerr + (string \<rightharpoonup> string option)) option"

text \<open>\<^verbatim>\<open>os.environ.get(key, '')\<close>.\<close>

definition get_or_empty :: "(string \<rightharpoonup> string) \<Rightarrow> string \<Rightarrow> string" where
  "get_or_empty d k = (case d k of None \<Rightarrow> [] | Some v \<Rightarrow> v)"

text \<open>
  \<^verbatim>\<open>config.get(key, '')\<close>: the empty string when the key is missing, and the value
  under the key otherwise, also when that value is \<^verbatim>\<open>None\<close>.
\<close>

definition config_get :: "(string \<rightharpoonup> string option) \<Rightarrow> string \<Rightarrow> string option" where
  "config_get config k = (case config k of None \<Rightarrow> Some [] | Some v \<Rightarrow> v)"

text \<open>The truth value of a credential: \<^verbatim>\<open>None\<close> and the empty string are false.\<close>

definition truthy :: "string option \<Rightarrow> bool" where
  "truthy v = (case v of None \<Rightarrow> False | Some x \<Rightarrow> x \<noteq> [])"

definition load_config ::
  "environ \<Rightarrow> config_file \<Rightarrow> (string option \<times> string option) \<times> message list" where
  "load_config env file =
     (let token = Some (get_or_empty env ''PATREON_ACCESS_TOKEN'');
          campaign_id = Some (get_or_empty env ''PATREON_CAMPAIGN_ID'')
      in if \<not> truthy token \<or> \<not> truthy campaign_id then
           (case file of
              None \<Rightarrow> ((token, campaign_id), [])
            | Some (Inl e) \<Rightarrow> ((token, campaign_id), [Config_warning e])
            | Some (Inr config) \<Rightarrow>
                ((if \<not> truthy token then config_get config ''PATREON_ACCESS_TOKEN'' else token,
                  if \<not> truthy campaign_id then config_get config ''PATREON_CAMPAIGN_ID''
                  else campaign_id), []))
         else ((token, campaign_id), []))"

section \<open>Fetching: \<^verbatim>\<open>get_patrons\<close>\<close>

text \<open>
  One page of the API's answer, as the program reads it: the members under
  \<^verbatim>\<open>data\<close>, the related records under \<^verbatim>\<open>included\<close> and the link to the next page.
  Every field of a record is optional. For a field that the program reads with
  brackets, \<open>None\<close> says that the key, or a key on the way to it, is missing, and the
  program raises \<^verbatim>\<open>KeyError\<close> there: these are \<open>m_id\<close> for \<^verbatim>\<open>member['id']\<close>,
  \<open>patron_status\<close> for \<^verbatim>\<open>member['attributes']['patron_status']\<close>, \<open>user_id\<close> for
  \<^verbatim>\<open>member['relationships']['user']['data']['id']\<close>, and \<open>u_id\<close> and \<open>u_type\<close> for
  \<^verbatim>\<open>user['id']\<close> and \<^verbatim>\<open>user['type']\<close>. For a field that the program reads with
  \<^verbatim>\<open>.get\<close>, \<open>None\<close> says that the key is missing and the default is taken. The values
  that are there have the types the API documents: strings, and an integer for the
  amount.
\<close>

record member =
  m_id :: "string option"
  patron_status :: "string option"
  user_id :: "string option"
  last_charge_date :: "string option"
  currently_entitled_amount_cents :: "int option"

record user =
  u_id :: "string option"
  u_type :: "string option"
  full_name :: "string option"

record page =
  included :: "user list"
  data :: "member list"
  next_link :: "string option"

datatype response = Failed request_error | Page page

text \<open>
  The remote service: what a request for a URL, with the bearer token and with or
  without the query parameters, is answered with. \<open>Failed\<close> stands for an exception of
  \<^verbatim>\<open>requests.get\<close>, of \<^verbatim>\<open>raise_for_status\<close> or of \<^verbatim>\<open>response.json\<close>.
\<close>

type_synonym server = "string \<Rightarrow> string \<Rightarrow> bool \<Rightarrow> response"

definition BASE_URL :: string where
  "BASE_URL = ''https://www.patreon.com/api/oauth2/v2''"

text \<open>
  The dictionary \<^verbatim>\<open>included_users\<close>, built record after record: the type is read
  first and the id only for a record of type user; of several such records with one id
  the last one stays.
\<close>

fun included_users :: "user list \<Rightarrow> (string \<rightharpoonup> user) \<Rightarrow> pyerr + (string \<rightharpoonup> user)" where
  "included_users [] users = Inr users"
| "included_users (u # us) users =
     (case u_type u of
        None \<Rightarrow> Inl KeyError
      | Some t \<Rightarrow>
          if t = ''user'' then
            (case u_id u of
               None \<Rightarrow> Inl KeyError
             | Some i \<Rightarrow> included_users us (users(i \<mapsto> u)))
          else included_users us users)"

text \<open>The dictionary \<^verbatim>\<open>patron_info\<close> of an active member with the id \<open>mid\<close>.\<close>

definition patron_info :: "(string \<rightharpoonup> user) \<Rightarrow> string \<Rightarrow> string \<Rightarrow> member \<Rightarrow> patron" where
  "patron_info users mid uid m =
     \<lparr>member_id = mid,
      displayed_name =
        (case users uid of
           None \<Rightarrow> ''Anonymous''
         | Some u \<Rightarrow> (case full_name u of None \<Rightarrow> ''Anonymous'' | Some n \<Rightarrow> n)),
      last_payment_timestamp = (case last_charge_date m of None \<Rightarrow> [] | Some d \<Rightarrow> d),
      pledge_amount_cents =
        (case currently_entitled_amount_cents m of None \<Rightarrow> 0 | Some c \<Rightarrow> c)\<rparr>"

text \<open>
  The loop over the members of a page, appending to \<^verbatim>\<open>all_patrons\<close>: the status is
  read first; for an active member the id of the user is read, then the id of the member.
\<close>

fun members_loop ::
  "(string \<rightharpoonup> user) \<Rightarrow> member list \<Rightarrow> patron list \<Rightarrow> pyerr + patron list" where
  "members_loop users [] all_patrons = Inr all_patrons"
| "members_loop users (m # ms) all_patrons =
     (case patron_status m of
        None \<Rightarrow> Inl KeyError
      | Some status \<Rightarrow>
          if status = ''active_patron'' then
            (case user_id m of
               None \<Rightarrow> Inl KeyError
             | Some uid \<Rightarrow>
                 (case m_id m of
                    None \<Rightarrow> Inl KeyError
                  | Some mid \<Rightarrow>
                      members_loop users ms (all_patrons @ [patron_info users mid uid m])))
          else members_loop users ms all_patrons)"

definition page_patrons :: "page \<Rightarrow> patron list \<Rightarrow> pyerr + patron list" where
  "page_patrons pg all_patrons =
     (case included_users (included pg) Map.empty of
        Inl e \<Rightarrow> Inl e
      | Inr users \<Rightarrow> members_loop users (data pg) all_patrons)"

text \<open>
  What ends the loop before its time: an exception of the \<^verbatim>\<open>requests\<close> library, which
  the handler of \<^verbatim>\<open>get_patrons\<close> catches, or another exception, which it does not.
\<close>

datatype raised = Request_exception request_error | Exception pyerr

text \<open>
  The state of the loop \<^verbatim>\<open>while url\<close>: the URL, whether the parameters are still
  sent, and \<^verbatim>\<open>all_patrons\<close>. One turn of the loop either raises or gives the next state.
\<close>

type_synonym loop_state = "string option \<times> bool \<times> patron list"

definition url_truthy :: "string option \<Rightarrow> bool" where
  "url_truthy url = (case url of None \<Rightarrow> False | Some u \<Rightarrow> u \<noteq> [])"

definition fetch_step :: "server \<Rightarrow> string \<Rightarrow> loop_state \<Rightarrow> raised + loop_state" where
  "fetch_step srv token st =
     (case st of (url, params, all_patrons) \<Rightarrow>
        (case srv (case url of None \<Rightarrow> [] | Some u \<Rightarrow> u) token params of
           Failed e \<Rightarrow> Inl (Request_exception e)
         | Page pg \<Rightarrow>
             (case page_patrons pg all_patrons of
                Inl e \<Rightarrow> Inl (Exception e)
              | Inr all_patrons' \<Rightarrow> Inr (next_link pg, False, all_patrons'))))"

partial_function (option) fetch_loop ::
  "server \<Rightarrow> string \<Rightarrow> loop_state \<Rightarrow> (raised + patron list) option" where
  "fetch_loop srv token st =
     (if url_truthy (fst st) then
        (case fetch_step srv token st of
           Inl e \<Rightarrow> Some (Inl e)
         | Inr st' \<Rightarrow> fetch_loop srv token st')
      else Some (Inr (snd (snd st))))"

text \<open>
  \<^verbatim>\<open>get_patrons\<close>, with the two globals as arguments: the list it returns and the
  lines it prints, or the exception that leaves it. The result is \<open>None\<close> when the
  service hands out next links for ever.
\<close>

definition get_patrons ::
  "string option \<Rightarrow> string option \<Rightarrow> server \<Rightarrow> (pyerr + patron list \<times> message list) option" where
  "get_patrons token campaign_id srv =
     (case token of
        None \<Rightarrow> Some (Inr ([], [Token_not_set]))
      | Some t \<Rightarrow>
          if t = [] then Some (Inr ([], [Token_not_set]))
          else
            (case campaign_id of
               None \<Rightarrow> Some (Inr ([], [Campaign_not_set]))
             | Some c \<Rightarrow>
                 if c = [] then Some (Inr ([], [Campaign_not_set]))
                 else
                   (case fetch_loop srv t
                           (Some (BASE_URL @ ''/campaigns/'' @ c @ ''/members''), True, []) of
                      None \<Rightarrow> None
                    | Some (Inl (Request_exception e)) \<Rightarrow> Some (Inr ([], [Error_fetching e]))
                    | Some (Inl (Exception e)) \<Rightarrow> Some (Inl e)
                    | Some (Inr all_patrons) \<Rightarrow>
                        Some (Inr (all_patrons, [Fetched (length all_patrons)])))))"

section \<open>Classification: \<^verbatim>\<open>categorize_patrons\<close>\<close>

text \<open>
  The dictionary \<^verbatim>\<open>categories\<close> keeps its keys in the order they were inserted, which
  the emission follows, so it is an association list.
\<close>

type_synonym categories = "(string \<times> patron list) list"

text \<open>The chain of comparisons on the pledge: the window in days and the key of the tier.\<close>

definition tier_of :: "int \<Rightarrow> (nat \<times> string) option" where
  "tier_of pledge_cents =
     (if pledge_cents = 300 then Some (30, ''one_month'')
      else if pledge_cents = 500 then Some (180, ''six_months'')
      else if pledge_cents = 1500 then Some (365, ''one_year'')
      else None)"

text \<open>\<^verbatim>\<open>categories[category].append(patron)\<close>; a missing key raises \<^verbatim>\<open>KeyError\<close>.\<close>

fun bucket_append :: "string \<Rightarrow> patron \<Rightarrow> categories \<Rightarrow> pyerr + categories" where
  "bucket_append category p [] = Inl KeyError"
| "bucket_append category p ((k, b) # cs) =
     (if k = category then Inr ((k, b @ [p]) # cs)
      else (case bucket_append category p cs of
              Inl e \<Rightarrow> Inl e
            | Inr cs' \<Rightarrow> Inr ((k, b) # cs')))"

text \<open>The parse of the \<^verbatim>\<open>try\<close> block: ISO format when the string has a T, a bare date otherwise.\<close>

definition parse_charge_date :: "library \<Rightarrow> string \<Rightarrow> pyerr + datetime" where
  "parse_charge_date lib last_charge =
     (if CHR ''T'' \<in> set last_charge then lib_fromisoformat lib (replace_Z last_charge)
      else lib_strptime_ymd lib last_charge)"

text \<open>
  The \<^verbatim>\<open>try\<close> block up to its test: whether \<^verbatim>\<open>eligible_until > now\<close>, or the exception
  that one of its three steps raises.
\<close>

definition eligible :: "library \<Rightarrow> datetime \<Rightarrow> nat \<Rightarrow> string \<Rightarrow> pyerr + bool" where
  "eligible lib now duration_days last_charge =
     (case parse_charge_date lib last_charge of
        Inl e \<Rightarrow> Inl e
      | Inr charge_date \<Rightarrow>
          (case add_days charge_date duration_days of
             Inl e \<Rightarrow> Inl e
           | Inr eligible_until \<Rightarrow> dt_greater eligible_until now))"

text \<open>
  The body of the loop over the patrons. The handler catches \<^verbatim>\<open>ValueError\<close> and
  \<^verbatim>\<open>TypeError\<close>; any other exception leaves the function.
\<close>

definition categorize_step ::
  "library \<Rightarrow> datetime \<Rightarrow> patron \<Rightarrow> categories \<times> message list
     \<Rightarrow> pyerr + categories \<times> message list" where
  "categorize_step lib now p st =
     (case st of (cats, out) \<Rightarrow>
        (case tier_of (pledge_amount_cents p) of
           None \<Rightarrow> Inr (cats, out @ [Unknown_pledge (pledge_amount_cents p) (displayed_name p)])
         | Some (duration_days, category) \<Rightarrow>
             if last_payment_timestamp p = [] then Inr (cats, out)
             else
               (case eligible lib now duration_days (last_payment_timestamp p) of
                  Inr True \<Rightarrow>
                    (case bucket_append category p cats of
                       Inl e \<Rightarrow>
                         if e = ValueError \<or> e = TypeError
                         then Inr (cats, out @ [Bad_date (displayed_name p)
                                                  (last_payment_timestamp p) e])
                         else Inl e
                     | Inr cats' \<Rightarrow> Inr (cats', out))
                | Inr False \<Rightarrow> Inr (cats, out)
                | Inl e \<Rightarrow>
                    if e = ValueError \<or> e = TypeError
                    then Inr (cats, out @ [Bad_date (displayed_name p)
                                             (last_payment_timestamp p) e])
                    else Inl e)))"

fun categorize_loop ::
  "library \<Rightarrow> datetime \<Rightarrow> patron list \<Rightarrow> categories \<times> message list
     \<Rightarrow> pyerr + categories \<times> message list" where
  "categorize_loop lib now [] st = Inr st"
| "categorize_loop lib now (p # ps) st =
     (case categorize_step lib now p st of
        Inl e \<Rightarrow> Inl e
      | Inr st' \<Rightarrow> categorize_loop lib now ps st')"

text \<open>\<^verbatim>\<open>cat_list.sort(key=lambda p: p['displayed_name'].lower())\<close>: a stable sort.\<close>

definition sort_bucket :: "library \<Rightarrow> patron list \<Rightarrow> patron list" where
  "sort_bucket lib b = sort_key (\<lambda>p. lib_lower lib (displayed_name p)) b"

definition empty_categories :: categories where
  "empty_categories = [(''one_month'', []), (''six_months'', []), (''one_year'', [])]"

text \<open>
  \<^verbatim>\<open>categorize_patrons\<close>. The clock is read once, before the loop. The result is the
  dictionary and the lines printed, or the exception that left the function.
\<close>

definition categorize_patrons ::
  "library \<Rightarrow> datetime \<Rightarrow> patron list \<Rightarrow> pyerr + categories \<times> message list" where
  "categorize_patrons lib clock patrons =
     (let now = datetime_now clock in
      case categorize_loop lib now patrons (empty_categories, []) of
        Inl e \<Rightarrow> Inl e
      | Inr (cats, out) \<Rightarrow> Inr (map (\<lambda>(k, b). (k, sort_bucket lib b)) cats, out))"

section \<open>Emission: \<^verbatim>\<open>write_csv\<close> and \<^verbatim>\<open>main\<close>\<close>

text \<open>
  The files the program writes. A tabular file is its rows, the header first; the
  structured file is the list of its entries. Quoting by the \<^verbatim>\<open>csv\<close> and \<^verbatim>\<open>json\<close>
  libraries and failures of the operating system on writing are outside the model.
\<close>

record json_entry =
  je_member_id :: string
  je_displayed_name :: string
  je_tier :: string
  je_last_payment_timestamp :: string

datatype file_content = Csv "string list list" | Json "json_entry list"

type_synonym filesystem = "string \<rightharpoonup> file_content"

definition fieldnames :: "string list" where
  "fieldnames = [''member_id'', ''displayed_name'', ''last_payment_timestamp'']"

text \<open>
  The date of a row: a timestamp with a T is parsed and written as a date; when the
  parse raises, and when there is no T, the timestamp stays as it is.
\<close>

definition csv_timestamp :: "library \<Rightarrow> string \<Rightarrow> string" where
  "csv_timestamp lib timestamp =
     (if CHR ''T'' \<in> set timestamp then
        (case lib_fromisoformat lib (replace_Z timestamp) of
           Inl e \<Rightarrow> timestamp
         | Inr dt \<Rightarrow> strftime_ymd dt)
      else timestamp)"

definition csv_row :: "library \<Rightarrow> patron \<Rightarrow> string list" where
  "csv_row lib p = [member_id p, displayed_name p, csv_timestamp lib (last_payment_timestamp p)]"

definition write_csv :: "library \<Rightarrow> string \<Rightarrow> patron list \<Rightarrow> filesystem \<Rightarrow> filesystem" where
  "write_csv lib filename patrons fs =
     fs(filename \<mapsto> Csv (fieldnames # map (csv_row lib) patrons))"

definition data_dir :: string where
  "data_dir = ''_data''"

text \<open>\<^verbatim>\<open>os.path.join(data_dir, name)\<close>.\<close>

definition path_join :: "string \<Rightarrow> string \<Rightarrow> string" where
  "path_join d name = d @ ''/'' @ name"

definition json_path :: string where
  "json_path = path_join data_dir ''patrons.json''"

definition files :: "(string \<times> string) list" where
  "files = [(''one_month'', path_join data_dir ''one_month_mentions.csv''),
            (''six_months'', path_join data_dir ''six_months_mentions.csv''),
            (''one_year'', path_join data_dir ''one_year_mentions.csv'')]"

definition tier_names :: "(string \<times> string) list" where
  "tier_names = [(''one_month'', ''NOTUS''), (''six_months'', ''ZEPHYRUS''), (''one_year'', ''BOREAS'')]"

text \<open>The loop over \<^verbatim>\<open>files.items()\<close>; \<^verbatim>\<open>categories[category]\<close> raises on a missing key.\<close>

fun write_csv_files ::
  "library \<Rightarrow> categories \<Rightarrow> (string \<times> string) list \<Rightarrow> filesystem \<times> message list
     \<Rightarrow> pyerr + filesystem \<times> message list" where
  "write_csv_files lib cats [] st = Inr st"
| "write_csv_files lib cats ((category, filepath) # rest) (fs, out) =
     (case map_of cats category of
        None \<Rightarrow> Inl KeyError
      | Some patron_list \<Rightarrow>
          write_csv_files lib cats rest
            (write_csv lib filepath patron_list fs,
             out @ [Updated filepath (length patron_list)]))"

text \<open>The entries of the structured file, tier after tier in the order of the dictionary.\<close>

definition json_entry_of :: "string \<Rightarrow> patron \<Rightarrow> json_entry" where
  "json_entry_of tier p =
     \<lparr>je_member_id = member_id p, je_displayed_name = displayed_name p, je_tier = tier,
      je_last_payment_timestamp = last_payment_timestamp p\<rparr>"

fun all_patrons_data :: "categories \<Rightarrow> pyerr + json_entry list" where
  "all_patrons_data [] = Inr []"
| "all_patrons_data ((category, patron_list) # rest) =
     (if patron_list = [] then all_patrons_data rest
      else
        (case map_of tier_names category of
           None \<Rightarrow> Inl KeyError
         | Some tier \<Rightarrow>
             (case all_patrons_data rest of
                Inl e \<Rightarrow> Inl e
              | Inr entries \<Rightarrow> Inr (map (json_entry_of tier) patron_list @ entries))))"

definition bucket_length :: "categories \<Rightarrow> string \<Rightarrow> nat" where
  "bucket_length cats k = (case map_of cats k of None \<Rightarrow> 0 | Some b \<Rightarrow> length b)"

text \<open>
  What surrounds a run: the environment, the configuration file, the remote service,
  the clock and the library.
\<close>

record world =
  w_environ :: environ
  w_config :: config_file
  w_server :: server
  w_clock :: datetime
  w_library :: library

text \<open>
  \<^verbatim>\<open>main\<close>: the files after the run and the lines printed, when the run ends without
  an exception (exit status 0); \<open>Inl\<close> when an exception ends it, in the fetch, in the
  classification or in the emission; \<open>None\<close> when the fetch never ends.
\<close>

definition main :: "world \<Rightarrow> filesystem \<Rightarrow> (pyerr + filesystem \<times> message list) option" where
  "main w fs =
     (case load_config (w_environ w) (w_config w) of
        ((token, campaign_id), out0) \<Rightarrow>
          (case get_patrons token campaign_id (w_server w) of
             None \<Rightarrow> None
           | Some (Inl e) \<Rightarrow> Some (Inl e)
           | Some (Inr (patrons, out1)) \<Rightarrow>
               (let out = out0 @ [Fetching_banner] @ out1 in
                if patrons = [] then
                  Some (Inr (fs(json_path \<mapsto> Json []),
                             out @ [No_patrons_help, Generated_empty json_path]))
                else
                  (case categorize_patrons (w_library w) (w_clock w) patrons of
                     Inl e \<Rightarrow> Some (Inl e)
                   | Inr (cats, out2) \<Rightarrow>
                       (case write_csv_files (w_library w) cats files
                               (fs, out @ [Categorizing_banner] @ out2) of
                          Inl e \<Rightarrow> Some (Inl e)
                        | Inr (fs', out3) \<Rightarrow>
                            (case all_patrons_data cats of
                               Inl e \<Rightarrow> Some (Inl e)
                             | Inr entries \<Rightarrow>
                                 Some (Inr (fs'(json_path \<mapsto> Json entries),
                                            out3 @ [Generated json_path (length entries),
                                                    Summary (bucket_length cats ''one_year'')
                                                      (bucket_length cats ''six_months'')
                                                      (bucket_length cats ''one_month'')]))))))))"

section \<open>The condition under which a patron enters a bucket\<close>

text \<open>
  \<open>accepted now k p\<close> collects the tests a patron passes on its way through the loop
  body to the \<^verbatim>\<open>append\<close> on the bucket \<open>k\<close>: its pledge selects the tier \<open>k\<close>, its
  timestamp is not empty, and the \<^verbatim>\<open>try\<close> block finds it eligible.
\<close>

definition accepted :: "library \<Rightarrow> datetime \<Rightarrow> string \<Rightarrow> patron \<Rightarrow> bool" where
  "accepted lib now k p =
     (case tier_of (pledge_amount_cents p) of
        None \<Rightarrow> False
      | Some (d, k') \<Rightarrow> k' = k \<and> last_payment_timestamp p \<noteq> []
                         \<and> eligible lib now d (last_payment_timestamp p) = Inr True)"

section \<open>Walking the pages\<close>

text \<open>
  The state of the fetch loop after \<open>n\<close> turns that all succeeded, counted from a
  given state; \<open>None\<close> when the loop has ended or failed before.
\<close>

fun turns :: "server \<Rightarrow> string \<Rightarrow> nat \<Rightarrow> loop_state \<Rightarrow> loop_state option" where
  "turns srv token 0 st = Some st"
| "turns srv token (Suc n) st =
     (if url_truthy (fst st) then
        (case fetch_step srv token st of
           Inl e \<Rightarrow> None
         | Inr st' \<Rightarrow> turns srv token n st')
      else None)"

text \<open>The state in which \<^verbatim>\<open>get_patrons\<close> enters the loop.\<close>

definition start_state :: "string \<Rightarrow> loop_state" where
  "start_state campaign_id =
     (Some (BASE_URL @ ''/campaigns/'' @ campaign_id @ ''/members''), True, [])"

section \<open>Concrete inputs\<close>

text \<open>A clock reading, some patrons and two remote services, used to run the definitions.\<close>

definition example_clock :: datetime where
  "example_clock = \<lparr>year = 2024, month = 3, day = 20, hour = 12, minute = 0, second = 0,
                     microsecond = 0, tzinfo = None\<rparr>"

definition alice :: patron where
  "alice = \<lparr>member_id = ''m1'', displayed_name = ''alice'',
            last_payment_timestamp = ''2024-03-15'', pledge_amount_cents = 300\<rparr>"

definition bob :: patron where
  "bob = \<lparr>member_id = ''m2'', displayed_name = ''Bob'',
          last_payment_timestamp = ''2024-03-15'', pledge_amount_cents = 700\<rparr>"

definition carol :: patron where
  "carol = \<lparr>member_id = ''m3'', displayed_name = ''carol'',
            last_payment_timestamp = [], pledge_amount_cents = 500\<rparr>"

definition dave :: patron where
  "dave = \<lparr>member_id = ''m4'', displayed_name = ''Dave'',
           last_payment_timestamp = ''2024-03-10T10:00:00'', pledge_amount_cents = 300\<rparr>"

definition eve :: patron where
  "eve = \<lparr>member_id = ''m5'', displayed_name = ''eve'',
          last_payment_timestamp = ''2024-03-15T10:00:00Z'', pledge_amount_cents = 1500\<rparr>"

definition frank :: patron where
  "frank = \<lparr>member_id = ''m6'', displayed_name = ''Frank'',
            last_payment_timestamp = ''not-a-date'', pledge_amount_cents = 500\<rparr>"

definition gina :: patron where
  "gina = \<lparr>member_id = ''m7'', displayed_name = ''gina'',
           last_payment_timestamp = ''2023-01-01'', pledge_amount_cents = 1500\<rparr>"

definition hank :: patron where
  "hank = \<lparr>member_id = ''m8'', displayed_name = ''Hank'',
           last_payment_timestamp = ''2024-01-01'', pledge_amount_cents = 500\<rparr>"

definition zed :: patron where
  "zed = \<lparr>member_id = ''m9'', displayed_name = ''Zed'',
          last_payment_timestamp = ''9999-12-31'', pledge_amount_cents = 300\<rparr>"

definition example_patrons :: "patron list" where
  "example_patrons = [dave, bob, carol, alice, eve, frank, gina, hank]"

definition example_env :: environ where
  "example_env = [''PATREON_ACCESS_TOKEN'' \<mapsto> ''tok'', ''PATREON_CAMPAIGN_ID'' \<mapsto> ''42'']"

definition example_url :: string where
  "example_url = ''https://www.patreon.com/api/oauth2/v2/campaigns/42/members''"

definition dave_member :: member where
  "dave_member = \<lparr>m_id = Some ''m4'', patron_status = Some ''active_patron'',
                  user_id = Some ''u4'', last_charge_date = Some ''2024-03-10T10:00:00'',
                  currently_entitled_amount_cents = Some 300\<rparr>"

definition dave_user :: user where
  "dave_user = \<lparr>u_id = Some ''u4'', u_type = Some ''user'', full_name = Some ''Dave''\<rparr>"

text \<open>A service with one page, holding one active member.\<close>

definition one_page_server :: server where
  "one_page_server url token params =
     (if url = example_url
      then Page \<lparr>included = [dave_user], data = [dave_member], next_link = None\<rparr>
      else Failed (HTTPError 404))"

text \<open>A service whose first page is fine and whose second page answers with status 500.\<close>

definition failing_server :: server where
  "failing_server url token params =
     (if url = example_url
      then Page \<lparr>included = [dave_user], data = [dave_member], next_link = Some ''page2''\<rparr>
      else Failed (HTTPError 500))"

text \<open>
  A service whose first page is fine and whose second page holds a member that has an
  id and nothing else: the body \<^verbatim>\<open>{"data": [{"id": "m2", "type": "member"}]}\<close>.
\<close>

definition bare_member :: member where
  "bare_member = \<lparr>m_id = Some ''m2'', patron_status = None, user_id = None,
                  last_charge_date = None, currently_entitled_amount_cents = None\<rparr>"

definition ill_shaped_server :: server where
  "ill_shaped_server url token params =
     (if url = example_url
      then Page \<lparr>included = [dave_user], data = [dave_member], next_link = Some ''page2''\<rparr>
      else Page \<lparr>included = [], data = [bare_member], next_link = None\<rparr>)"

definition ill_shaped_world :: world where
  "ill_shaped_world = \<lparr>w_environ = example_env, w_config = None,
                       w_server = ill_shaped_server, w_clock = example_clock,
                       w_library = python\<rparr>"

text \<open>
  A configuration file with the two lines \<^verbatim>\<open>PATREON_ACCESS_TOKEN\<close> and
  \<^verbatim>\<open>PATREON_CAMPAIGN_ID=42\<close>, as \<^verbatim>\<open>dotenv_values\<close> reads it.
\<close>

definition token_without_value :: "string \<rightharpoonup> string option" where
  "token_without_value = [''PATREON_ACCESS_TOKEN'' \<mapsto> None, ''PATREON_CAMPAIGN_ID'' \<mapsto> Some ''42'']"

definition one_page_world :: world where
  "one_page_world = \<lparr>w_environ = example_env, w_config = None, w_server = one_page_server,
                     w_clock = example_clock, w_library = python\<rparr>"

text \<open>A run without credentials: no variable is set and there is no configuration file.\<close>

definition no_credentials_world :: world where
  "no_credentials_world = \<lparr>w_environ = Map.empty, w_config = None, w_server = one_page_server,
                           w_clock = example_clock, w_library = python\<rparr>"

section \<open>Evaluating the definitions\<close>

lemmas eval_defs = digits_def digit_val_def month_field_def day_field_def strptime_ymd_def
  make_datetime_def days_in_month_def days_in_month_tab_def is_leap_def
  fromisoformat_def replace_Z_def parse_isoformat_date_def parse_isoformat_time_def
  parse_hh_mm_ss_ff_def parse_fraction_def is_sign_def
  strftime_ymd_def year_digits_def two_digits_def digit_char_def
  add_days_def ymd2ord_def ord2ymd_def days_before_year_def days_before_month_def
  days_before_month_tab_def MAXORDINAL_def upt_conv_Cons
  dt_greater_def dt_fields_def utc_micros_def datetime_now_def
  parse_charge_date_def eligible_def csv_timestamp_def lower_def lower_char_def Let_def
  python_def

section \<open>The buckets that classification returns\<close>

lemma bucket_append_map:
  "bucket_append c p cats = Inr cats' \<Longrightarrow> distinct (map fst cats) \<Longrightarrow>
   cats' = map (\<lambda>(k, b). (k, if k = c then b @ [p] else b)) cats"
proof (induction cats arbitrary: cats')
  case Nil
  then show ?case by simp
next
  case (Cons a cats)
  obtain k b where a: "a = (k, b)" by (cases a)
  show ?case
  proof (cases "k = c")
    case True
    with Cons.prems a have "cats' = (k, b @ [p]) # cats" by simp
    moreover from Cons.prems(2) a True have "\<forall>(k', b') \<in> set cats. k' \<noteq> c" by force
    then have "map (\<lambda>(k, b). (k, if k = c then b @ [p] else b)) cats = cats"
      by (induction cats) auto
    ultimately show ?thesis using a True by simp
  next
    case False
    with Cons.prems a obtain cs' where cs': "bucket_append c p cats = Inr cs'" "cats' = (k, b) # cs'"
      by (auto split: sum.splits)
    with Cons.IH[OF cs'(1)] Cons.prems(2) a False show ?thesis by simp
  qed
qed

lemma bucket_append_err: "bucket_append c p cats = Inl e \<Longrightarrow> e = KeyError"
  by (induction cats) (auto split: if_splits sum.splits)

lemma categorize_step_map:
  assumes "categorize_step lib now p (cats, out) = Inr (cats', out')" "distinct (map fst cats)"
  shows "cats' = map (\<lambda>(k, b). (k, b @ (if accepted lib now k p then [p] else []))) cats"
proof (cases "tier_of (pledge_amount_cents p)")
  case None
  with assms have "cats' = cats" by (simp add: categorize_step_def)
  moreover have "\<And>k. \<not> accepted lib now k p" using None by (simp add: accepted_def)
  ultimately show ?thesis by (simp add: case_prod_unfold)
next
  case (Some a)
  obtain d c where a: "a = (d, c)" by (cases a)
  show ?thesis
  proof (cases "last_payment_timestamp p \<noteq> [] \<and> eligible lib now d (last_payment_timestamp p) = Inr True")
    case True
    with assms Some a have "bucket_append c p cats = Inr cats'"
      by (auto simp: categorize_step_def split: sum.splits if_splits dest: bucket_append_err)
    from bucket_append_map[OF this assms(2)]
    have "cats' = map (\<lambda>(k, b). (k, if k = c then b @ [p] else b)) cats" .
    moreover have "\<And>k. accepted lib now k p = (k = c)" using True Some a by (auto simp: accepted_def)
    ultimately show ?thesis by (simp add: case_prod_unfold cong: map_cong)
  next
    case False
    with assms Some a have "cats' = cats"
      by (auto simp: categorize_step_def split: sum.splits if_splits bool.splits)
    moreover have "\<And>k. \<not> accepted lib now k p" using False Some a by (auto simp: accepted_def)
    ultimately show ?thesis by (simp add: case_prod_unfold)
  qed
qed

lemma categorize_loop_map:
  "categorize_loop lib now ps (cats, out) = Inr (cats', out') \<Longrightarrow> distinct (map fst cats) \<Longrightarrow>
   cats' = map (\<lambda>(k, b). (k, b @ filter (accepted lib now k) ps)) cats"
proof (induction ps arbitrary: cats out)
  case Nil
  then show ?case by (simp add: case_prod_unfold)
next
  case (Cons p ps)
  from Cons.prems(1) obtain c1 o1 where
    s: "categorize_step lib now p (cats, out) = Inr (c1, o1)" and
    l: "categorize_loop lib now ps (c1, o1) = Inr (cats', out')"
    by (auto split: sum.splits)
  from categorize_step_map[OF s Cons.prems(2)]
  have c1: "c1 = map (\<lambda>(k, b). (k, b @ (if accepted lib now k p then [p] else []))) cats" .
  then have d: "distinct (map fst c1)" using Cons.prems(2) by (simp add: case_prod_unfold comp_def)
  from Cons.IH[OF l d] c1 show ?case by (simp add: case_prod_unfold comp_def)
qed

lemma categorize_patrons_buckets:
  assumes "categorize_patrons lib clock ps = Inr (cats, out)"
  shows "cats = map (\<lambda>k. (k, sort_bucket lib (filter (accepted lib (datetime_now clock) k) ps)))
                  [''one_month'', ''six_months'', ''one_year'']"
proof -
  from assms obtain c0 where
    l: "categorize_loop lib (datetime_now clock) ps (empty_categories, []) = Inr (c0, out)"
    and c: "cats = map (\<lambda>(k, b). (k, sort_bucket lib b)) c0"
    by (auto simp: categorize_patrons_def Let_def split: sum.splits)
  have "distinct (map fst empty_categories)" by (simp add: empty_categories_def)
  from categorize_loop_map[OF l this] c show ?thesis by (simp add: empty_categories_def)
qed

section \<open>Credential resolution\<close>

text \<open>
  What \<^verbatim>\<open>load_config\<close> returns, case by case: a value that the environment gives is
  returned as it is, whatever the file holds; a value that the environment leaves empty
  is what \<^verbatim>\<open>config.get\<close> gives when the file is there and could be read; a missing file
  leaves the environment's values; a file that cannot be read leaves them too, and the
  warning is printed.
\<close>

lemma load_config_resolution:
  "(get_or_empty env ''PATREON_ACCESS_TOKEN'' \<noteq> [] \<longrightarrow>
      fst (fst (load_config env cfile)) = Some (get_or_empty env ''PATREON_ACCESS_TOKEN''))
   \<and> (get_or_empty env ''PATREON_CAMPAIGN_ID'' \<noteq> [] \<longrightarrow>
      snd (fst (load_config env cfile)) = Some (get_or_empty env ''PATREON_CAMPAIGN_ID''))
   \<and> (get_or_empty env ''PATREON_ACCESS_TOKEN'' = [] \<and> cfile = Some (Inr config) \<longrightarrow>
      fst (fst (load_config env cfile)) = config_get config ''PATREON_ACCESS_TOKEN'')
   \<and> (get_or_empty env ''PATREON_CAMPAIGN_ID'' = [] \<and> cfile = Some (Inr config) \<longrightarrow>
      snd (fst (load_config env cfile)) = config_get config ''PATREON_CAMPAIGN_ID'')
   \<and> (cfile = None \<longrightarrow>
      load_config env cfile =
        ((Some (get_or_empty env ''PATREON_ACCESS_TOKEN''),
          Some (get_or_empty env ''PATREON_CAMPAIGN_ID'')), []))
   \<and> (cfile = Some (Inl e) \<longrightarrow>
      load_config env cfile =
        ((Some (get_or_empty env ''PATREON_ACCESS_TOKEN''),
          Some (get_or_empty env ''PATREON_CAMPAIGN_ID'')),
         if get_or_empty env ''PATREON_ACCESS_TOKEN'' = []
            \<or> get_or_empty env ''PATREON_CAMPAIGN_ID'' = []
         then [Config_warning e] else []))"
proof (cases cfile)
  case None
  then show ?thesis
    by (auto simp: load_config_def truthy_def Let_def)
next
  case (Some r)
  then show ?thesis
    by (cases r) (auto simp: load_config_def truthy_def Let_def)
qed

text \<open>
  C8. With nothing in the environment and a configuration file that names the token
  without a value and gives the campaign id 42, \<^verbatim>\<open>config.get\<close> finds the key and
  returns its value, which is \<^verbatim>\<open>None\<close>: \<^verbatim>\<open>load_config\<close> returns \<^verbatim>\<open>None\<close> for the token,
  not the empty string.
\<close>

theorem load_config_returns_none:
  "load_config Map.empty (Some (Inr token_without_value)) = ((None, Some ''42''), [])"
  by (simp add: load_config_def get_or_empty_def config_get_def truthy_def
        token_without_value_def)

theorem load_config_returns_none_witness:
  "fst (fst (load_config Map.empty (Some (Inr token_without_value)))) \<noteq> Some []
   \<and> snd (fst (load_config Map.empty (Some (Inr token_without_value)))) = Some ''42''"
  using load_config_returns_none by simp

section \<open>What classification prints, and the files made from its buckets\<close>

lemma categorize_step_out:
  "categorize_step lib now p (cats, out) = Inr (cats', out') \<Longrightarrow> set out \<subseteq> set out'"
  by (auto simp: categorize_step_def split: option.splits sum.splits if_splits bool.splits)

lemma categorize_loop_out:
  "categorize_loop lib now ps (cats, out) = Inr (cats', out') \<Longrightarrow> set out \<subseteq> set out'"
proof (induction ps arbitrary: cats out)
  case Nil
  then show ?case by simp
next
  case (Cons p ps)
  from Cons.prems obtain c1 o1 where
    s: "categorize_step lib now p (cats, out) = Inr (c1, o1)" and
    l: "categorize_loop lib now ps (c1, o1) = Inr (cats', out')"
    by (auto split: sum.splits)
  from categorize_step_out[OF s] Cons.IH[OF l] show ?case by simp
qed

lemma categorize_loop_unknown:
  "categorize_loop lib now ps (cats, out) = Inr (cats', out') \<Longrightarrow> p \<in> set ps \<Longrightarrow>
   tier_of (pledge_amount_cents p) = None \<Longrightarrow>
   Unknown_pledge (pledge_amount_cents p) (displayed_name p) \<in> set out'"
proof (induction ps arbitrary: cats out)
  case Nil
  then show ?case by simp
next
  case (Cons q ps)
  from Cons.prems(1) obtain c1 o1 where
    s: "categorize_step lib now q (cats, out) = Inr (c1, o1)" and
    l: "categorize_loop lib now ps (c1, o1) = Inr (cats', out')"
    by (auto split: sum.splits)
  show ?case
  proof (cases "p = q")
    case True
    with s Cons.prems(3) have "Unknown_pledge (pledge_amount_cents p) (displayed_name p) \<in> set o1"
      by (auto simp: categorize_step_def)
    with categorize_loop_out[OF l] show ?thesis by auto
  next
    case False
    with Cons.prems(2) have "p \<in> set ps" by simp
    from Cons.IH[OF l this Cons.prems(3)] show ?thesis .
  qed
qed

lemma categorize_patrons_unknown:
  assumes "categorize_patrons lib clock ps = Inr (cats, out)" "p \<in> set ps"
    "tier_of (pledge_amount_cents p) = None"
  shows "Unknown_pledge (pledge_amount_cents p) (displayed_name p) \<in> set out"
proof -
  from assms(1) obtain c0 where
    l: "categorize_loop lib (datetime_now clock) ps (empty_categories, []) = Inr (c0, out)"
    by (auto simp: categorize_patrons_def Let_def split: sum.splits)
  from categorize_loop_unknown[OF l assms(2,3)] show ?thesis .
qed

lemma categorize_patrons_member:
  assumes "categorize_patrons lib clock ps = Inr (cats, out)" "(k, b) \<in> set cats" "p \<in> set b"
  shows "p \<in> set ps \<and> accepted lib (datetime_now clock) k p"
proof -
  from categorize_patrons_buckets[OF assms(1)] assms(2)
  have "b = sort_bucket lib (filter (accepted lib (datetime_now clock) k) ps)" by auto
  with assms(3) show ?thesis by (simp add: sort_bucket_def)
qed

lemma categorize_patrons_sorted:
  assumes "categorize_patrons lib clock ps = Inr (cats, out)" "(k, b) \<in> set cats"
  shows "sorted (map (\<lambda>p. lib_lower lib (displayed_name p)) b)"
proof -
  from categorize_patrons_buckets[OF assms(1)] assms(2)
  have "b = sort_bucket lib (filter (accepted lib (datetime_now clock) k) ps)" by auto
  then show ?thesis by (simp add: sort_bucket_def)
qed

lemma write_csv_files_buckets:
  "write_csv_files lib (map (\<lambda>k. (k, B k)) [''one_month'', ''six_months'', ''one_year'']) files (fs, out)
     = Inr (fs(path_join data_dir ''one_month_mentions.csv''
                 \<mapsto> Csv (fieldnames # map (csv_row lib) (B ''one_month'')),
               path_join data_dir ''six_months_mentions.csv''
                 \<mapsto> Csv (fieldnames # map (csv_row lib) (B ''six_months'')),
               path_join data_dir ''one_year_mentions.csv''
                 \<mapsto> Csv (fieldnames # map (csv_row lib) (B ''one_year''))),
            out @ [Updated (path_join data_dir ''one_month_mentions.csv'') (length (B ''one_month'')),
                   Updated (path_join data_dir ''six_months_mentions.csv'') (length (B ''six_months'')),
                   Updated (path_join data_dir ''one_year_mentions.csv'') (length (B ''one_year''))])"
  by (simp add: files_def write_csv_def)

lemma all_patrons_data_buckets:
  "all_patrons_data (map (\<lambda>k. (k, B k)) [''one_month'', ''six_months'', ''one_year''])
     = Inr (map (json_entry_of ''NOTUS'') (B ''one_month'')
            @ map (json_entry_of ''ZEPHYRUS'') (B ''six_months'')
            @ map (json_entry_of ''BOREAS'') (B ''one_year''))"
  by (simp add: tier_names_def)

lemma eligible_examples:
  "eligible python (datetime_now example_clock) 30 ''2024-03-15'' = Inr True"
  "eligible python (datetime_now example_clock) 30 ''2024-03-10T10:00:00'' = Inr True"
  "eligible python (datetime_now example_clock) 365 ''2024-03-15T10:00:00Z'' = Inl TypeError"
  "eligible python (datetime_now example_clock) 180 ''not-a-date'' = Inl ValueError"
  "eligible python (datetime_now example_clock) 365 ''2023-01-01'' = Inr False"
  "eligible python (datetime_now example_clock) 180 ''2024-01-01'' = Inr True"
  by (simp_all add: eval_defs example_clock_def)

lemma eligible_overflow: "eligible python now 30 ''9999-12-31'' = Inl OverflowError"
  by (simp add: eval_defs)

lemma lower_names:
  "lib_lower python ''alice'' = ''alice''" "lib_lower python ''Dave'' = ''dave''"
  "lib_lower python ''Hank'' = ''hank''"
  by (simp_all add: python_def lower_def lower_char_def)

lemma categorize_example:
  "categorize_patrons python example_clock example_patrons
     = Inr ([(''one_month'', [alice, dave]), (''six_months'', [hank]), (''one_year'', [])],
            [Unknown_pledge 700 ''Bob'',
             Bad_date ''eve'' ''2024-03-15T10:00:00Z'' TypeError,
             Bad_date ''Frank'' ''not-a-date'' ValueError])"
  by (simp add: categorize_patrons_def example_patrons_def categorize_step_def tier_of_def
        empty_categories_def sort_bucket_def eligible_examples lower_names
        alice_def bob_def carol_def dave_def eve_def frank_def gina_def hank_def)

section \<open>Timestamps that classification does not survive or does not accept\<close>

text \<open>
  C2. A timestamp with a trailing Z parses to a date with a time zone, and the reading of
  the clock has none, so the comparison raises \<^verbatim>\<open>TypeError\<close>; the handler prints the
  warning and the patron is left out. Here the pledge is 1500, the payment of 15 March
  2024 plus 365 days is 15 March 2025, the clock reads 20 March 2024, and the buckets
  stay empty.
\<close>

theorem z_timestamp_is_skipped:
  "parse_charge_date python ''2024-03-15T10:00:00Z''
     = Inr \<lparr>year = 2024, month = 3, day = 15, hour = 10, minute = 0, second = 0,
            microsecond = 0, tzinfo = Some 0\<rparr>
   \<and> add_days \<lparr>year = 2024, month = 3, day = 15, hour = 10, minute = 0, second = 0,
               microsecond = 0, tzinfo = Some 0\<rparr> 365
     = Inr \<lparr>year = 2025, month = 3, day = 15, hour = 10, minute = 0, second = 0,
            microsecond = 0, tzinfo = Some 0\<rparr>
   \<and> dt_greater \<lparr>year = 2025, month = 3, day = 15, hour = 10, minute = 0, second = 0,
                 microsecond = 0, tzinfo = Some 0\<rparr> (datetime_now example_clock)
     = Inl TypeError
   \<and> categorize_patrons python example_clock [eve]
     = Inr ([(''one_month'', []), (''six_months'', []), (''one_year'', [])],
            [Bad_date ''eve'' ''2024-03-15T10:00:00Z'' TypeError])"
proof (intro conjI)
  show "parse_charge_date python ''2024-03-15T10:00:00Z''
     = Inr \<lparr>year = 2024, month = 3, day = 15, hour = 10, minute = 0, second = 0,
            microsecond = 0, tzinfo = Some 0\<rparr>"
    by (simp add: eval_defs)
  show "add_days \<lparr>year = 2024, month = 3, day = 15, hour = 10, minute = 0, second = 0,
               microsecond = 0, tzinfo = Some 0\<rparr> 365
     = Inr \<lparr>year = 2025, month = 3, day = 15, hour = 10, minute = 0, second = 0,
            microsecond = 0, tzinfo = Some 0\<rparr>"
    by (simp add: eval_defs)
  show "dt_greater \<lparr>year = 2025, month = 3, day = 15, hour = 10, minute = 0, second = 0,
                 microsecond = 0, tzinfo = Some 0\<rparr> (datetime_now example_clock)
     = Inl TypeError"
    by (simp add: dt_greater_def datetime_now_def example_clock_def)
  show "categorize_patrons python example_clock [eve]
     = Inr ([(''one_month'', []), (''six_months'', []), (''one_year'', [])],
            [Bad_date ''eve'' ''2024-03-15T10:00:00Z'' TypeError])"
    by (simp add: categorize_patrons_def categorize_step_def tier_of_def
          empty_categories_def sort_bucket_def eligible_examples eve_def)
qed

text \<open>
  C10. A patron who pledges 300 and whose last payment is dated 31 December 9999: the
  date parses, adding the 30 days of the tier raises \<^verbatim>\<open>OverflowError\<close>, which the
  handler does not catch, so \<^verbatim>\<open>categorize_patrons\<close> returns no mapping, whatever the
  clock reads.
\<close>

theorem categorize_patrons_overflow:
  "categorize_patrons python clock [zed] = Inl OverflowError"
  by (simp add: categorize_patrons_def categorize_step_def tier_of_def
        empty_categories_def eligible_overflow zed_def)

section \<open>Tiers, eligibility and order\<close>

text \<open>
  C4. The tier comes from the pledge alone, by the table 300 to \<^verbatim>\<open>one_month\<close> with 30
  days, 500 to \<^verbatim>\<open>six_months\<close> with 180 days and 1500 to \<^verbatim>\<open>one_year\<close> with 365 days.
  When classification returns, a patron in a bucket has the pledge of that bucket's tier
  and is in no other bucket; a patron with any other pledge is in no bucket, the loop body
  goes on after printing a warning for it, and that warning is among the lines printed.
\<close>

theorem tier_by_pledge:
  assumes "categorize_patrons lib clock patrons = Inr (cats, out)"
  shows "(tier_of c = Some (30, ''one_month'') \<longleftrightarrow> c = 300)
         \<and> (tier_of c = Some (180, ''six_months'') \<longleftrightarrow> c = 500)
         \<and> (tier_of c = Some (365, ''one_year'') \<longleftrightarrow> c = 1500)
         \<and> (tier_of c = None \<longleftrightarrow> c \<notin> {300, 500, 1500})
         \<and> map fst cats = [''one_month'', ''six_months'', ''one_year'']
         \<and> ((k, b) \<in> set cats \<and> p \<in> set b \<longrightarrow>
              (\<exists>d. tier_of (pledge_amount_cents p) = Some (d, k)))
         \<and> ((k, b) \<in> set cats \<and> p \<in> set b \<and> (k', b') \<in> set cats \<and> p \<in> set b' \<longrightarrow>
              k' = k \<and> b' = b)
         \<and> (pledge_amount_cents q \<notin> {300, 500, 1500} \<longrightarrow>
              categorize_step lib now q (cats0, out0)
                = Inr (cats0, out0 @ [Unknown_pledge (pledge_amount_cents q) (displayed_name q)])
              \<and> (\<forall>k b. (k, b) \<in> set cats \<longrightarrow> q \<notin> set b)
              \<and> (q \<in> set patrons \<longrightarrow>
                   Unknown_pledge (pledge_amount_cents q) (displayed_name q) \<in> set out))"
proof -
  note B = categorize_patrons_buckets[OF assms]
  have t: "(tier_of c = Some (30, ''one_month'') \<longleftrightarrow> c = 300)
         \<and> (tier_of c = Some (180, ''six_months'') \<longleftrightarrow> c = 500)
         \<and> (tier_of c = Some (365, ''one_year'') \<longleftrightarrow> c = 1500)
         \<and> (tier_of c = None \<longleftrightarrow> c \<notin> {300, 500, 1500})"
    by (simp add: tier_of_def)
  have keys: "map fst cats = [''one_month'', ''six_months'', ''one_year'']"
    using B by simp
  have tier: "\<exists>d. tier_of (pledge_amount_cents p) = Some (d, k)"
    if "(k, b) \<in> set cats" "p \<in> set b" for k b p
    using categorize_patrons_member[OF assms that]
    by (auto simp: accepted_def split: option.splits)
  have one: "k' = k \<and> b' = b"
    if "(k, b) \<in> set cats" "p \<in> set b" "(k', b') \<in> set cats" "p \<in> set b'"
  proof -
    from tier[OF that(1,2)] tier[OF that(3,4)] have "k' = k" by auto
    moreover have "distinct (map fst cats)" using keys by simp
    ultimately show ?thesis using that(1,3) by (auto dest: eq_key_imp_eq_value)
  qed
  have unknown: "categorize_step lib now q (cats0, out0)
                = Inr (cats0, out0 @ [Unknown_pledge (pledge_amount_cents q) (displayed_name q)])
              \<and> (\<forall>k b. (k, b) \<in> set cats \<longrightarrow> q \<notin> set b)
              \<and> (q \<in> set patrons \<longrightarrow>
                   Unknown_pledge (pledge_amount_cents q) (displayed_name q) \<in> set out)"
    if "pledge_amount_cents q \<notin> {300, 500, 1500}"
  proof -
    from that have n: "tier_of (pledge_amount_cents q) = None" by (simp add: tier_of_def)
    then have "categorize_step lib now q (cats0, out0)
                = Inr (cats0, out0 @ [Unknown_pledge (pledge_amount_cents q) (displayed_name q)])"
      by (simp add: categorize_step_def)
    moreover have "\<forall>k b. (k, b) \<in> set cats \<longrightarrow> q \<notin> set b"
      using tier n by fastforce
    moreover have "q \<in> set patrons \<longrightarrow>
                   Unknown_pledge (pledge_amount_cents q) (displayed_name q) \<in> set out"
      using categorize_patrons_unknown[OF assms _ n] by blast
    ultimately show ?thesis by blast
  qed
  from t keys tier one unknown show ?thesis by blast
qed

theorem tier_by_pledge_witness:
  "tier_of 300 = Some (30, ''one_month'')
   \<and> (\<exists>d. tier_of (pledge_amount_cents dave) = Some (d, ''one_month''))
   \<and> Unknown_pledge 700 ''Bob'' \<in> set [Unknown_pledge 700 ''Bob'',
         Bad_date ''eve'' ''2024-03-15T10:00:00Z'' TypeError,
         Bad_date ''Frank'' ''not-a-date'' ValueError]
   \<and> bob \<notin> set [alice, dave] \<and> bob \<notin> set [hank]"
proof -
  note T = tier_by_pledge [OF categorize_example, where c = 300 and k = "''one_month''"
      and b = "[alice, dave]" and p = dave and k' = "''one_month''" and b' = "[alice, dave]"
      and q = bob]
  have a: "tier_of 300 = Some (30, ''one_month'')"
    using T by simp
  have b: "\<exists>d. tier_of (pledge_amount_cents dave) = Some (d, ''one_month'')"
    using T by simp
  have q: "pledge_amount_cents bob \<notin> {300, 500, 1500}" by (simp add: bob_def)
  have m: "bob \<in> set example_patrons" by (simp add: example_patrons_def)
  note U = T [THEN conjunct2, THEN conjunct2, THEN conjunct2, THEN conjunct2, THEN conjunct2,
      THEN conjunct2, THEN conjunct2, THEN mp, OF q]
  have c: "Unknown_pledge (pledge_amount_cents bob) (displayed_name bob)
            \<in> set [Unknown_pledge 700 ''Bob'',
                   Bad_date ''eve'' ''2024-03-15T10:00:00Z'' TypeError,
                   Bad_date ''Frank'' ''not-a-date'' ValueError]"
    using U m by blast
  have d: "bob \<notin> set [alice, dave] \<and> bob \<notin> set [hank]"
    using U by simp
  from a b c d show ?thesis by (simp add: bob_def)
qed

text \<open>
  C5. The clock is read once, and every patron is compared with that one reading.
  Whatever the parsers of the library accept: when classification returns, a patron in
  the bucket of a tier comes from the input, its timestamp is not empty and the library
  parses it, and the parsed date plus the days of the tier is strictly after the reading
  of the clock. A patron whose timestamp is empty or does not
  parse is in no bucket, in no row of a tabular file and in no entry of the structured
  file: the files hold the buckets and nothing else.
\<close>

theorem eligibility_gate:
  assumes "categorize_patrons lib clock patrons = Inr (cats, out)"
  shows "((k, b) \<in> set cats \<and> p \<in> set b \<longrightarrow>
            p \<in> set patrons \<and> last_payment_timestamp p \<noteq> []
            \<and> (\<exists>d charge_date eligible_until.
                  tier_of (pledge_amount_cents p) = Some (d, k)
                  \<and> parse_charge_date lib (last_payment_timestamp p) = Inr charge_date
                  \<and> add_days charge_date d = Inr eligible_until
                  \<and> dt_greater eligible_until (datetime_now clock) = Inr True))
         \<and> (last_payment_timestamp q = []
              \<or> (\<exists>e. parse_charge_date lib (last_payment_timestamp q) = Inl e) \<longrightarrow>
            (\<forall>k b. (k, b) \<in> set cats \<longrightarrow> q \<notin> set b))
         \<and> (\<exists>b1 b2 b3. cats = [(''one_month'', b1), (''six_months'', b2), (''one_year'', b3)]
              \<and> write_csv_files lib cats files (fs, out1)
                  = Inr (fs(path_join data_dir ''one_month_mentions.csv''
                              \<mapsto> Csv (fieldnames # map (csv_row lib) b1),
                            path_join data_dir ''six_months_mentions.csv''
                              \<mapsto> Csv (fieldnames # map (csv_row lib) b2),
                            path_join data_dir ''one_year_mentions.csv''
                              \<mapsto> Csv (fieldnames # map (csv_row lib) b3)),
                         out1 @ [Updated (path_join data_dir ''one_month_mentions.csv'') (length b1),
                                 Updated (path_join data_dir ''six_months_mentions.csv'') (length b2),
                                 Updated (path_join data_dir ''one_year_mentions.csv'') (length b3)])
              \<and> all_patrons_data cats
                  = Inr (map (json_entry_of ''NOTUS'') b1 @ map (json_entry_of ''ZEPHYRUS'') b2
                         @ map (json_entry_of ''BOREAS'') b3))"
proof -
  have gate: "p \<in> set patrons \<and> last_payment_timestamp p \<noteq> []
            \<and> (\<exists>d charge_date eligible_until.
                  tier_of (pledge_amount_cents p) = Some (d, k)
                  \<and> parse_charge_date lib (last_payment_timestamp p) = Inr charge_date
                  \<and> add_days charge_date d = Inr eligible_until
                  \<and> dt_greater eligible_until (datetime_now clock) = Inr True)"
    if "(k, b) \<in> set cats" "p \<in> set b" for k b p
    using categorize_patrons_member[OF assms that]
    by (auto simp: accepted_def eligible_def split: option.splits sum.splits)
  have out: "\<forall>k b. (k, b) \<in> set cats \<longrightarrow> q \<notin> set b"
    if "last_payment_timestamp q = []
        \<or> (\<exists>e. parse_charge_date lib (last_payment_timestamp q) = Inl e)"
    using that gate by fastforce
  let ?B = "\<lambda>k. sort_bucket lib (filter (accepted lib (datetime_now clock) k) patrons)"
  have c: "cats = map (\<lambda>k. (k, ?B k)) [''one_month'', ''six_months'', ''one_year'']"
    by (rule categorize_patrons_buckets[OF assms])
  have f: "\<exists>b1 b2 b3. cats = [(''one_month'', b1), (''six_months'', b2), (''one_year'', b3)]
              \<and> write_csv_files lib cats files (fs, out1)
                  = Inr (fs(path_join data_dir ''one_month_mentions.csv''
                              \<mapsto> Csv (fieldnames # map (csv_row lib) b1),
                            path_join data_dir ''six_months_mentions.csv''
                              \<mapsto> Csv (fieldnames # map (csv_row lib) b2),
                            path_join data_dir ''one_year_mentions.csv''
                              \<mapsto> Csv (fieldnames # map (csv_row lib) b3)),
                         out1 @ [Updated (path_join data_dir ''one_month_mentions.csv'') (length b1),
                                 Updated (path_join data_dir ''six_months_mentions.csv'') (length b2),
                                 Updated (path_join data_dir ''one_year_mentions.csv'') (length b3)])
              \<and> all_patrons_data cats
                  = Inr (map (json_entry_of ''NOTUS'') b1 @ map (json_entry_of ''ZEPHYRUS'') b2
                         @ map (json_entry_of ''BOREAS'') b3)"
    apply (rule exI[of _ "?B ''one_month''"])
    apply (rule exI[of _ "?B ''six_months''"])
    apply (rule exI[of _ "?B ''one_year''"])
    apply (intro conjI)
      apply (simp add: c)
     apply (simp only: c write_csv_files_buckets)
    apply (simp only: c all_patrons_data_buckets)
    done
  from gate out f show ?thesis by blast
qed

theorem eligibility_gate_witness:
  "last_payment_timestamp dave \<noteq> []
   \<and> (\<exists>d charge_date eligible_until.
         tier_of (pledge_amount_cents dave) = Some (d, ''one_month'')
         \<and> parse_charge_date python (last_payment_timestamp dave) = Inr charge_date
         \<and> add_days charge_date d = Inr eligible_until
         \<and> dt_greater eligible_until (datetime_now example_clock) = Inr True)
   \<and> carol \<notin> set [alice, dave] \<and> carol \<notin> set [hank]
   \<and> frank \<notin> set [alice, dave] \<and> frank \<notin> set [hank]
   \<and> parse_charge_date python ''2024-03-10T10:00:00''
       = Inr \<lparr>year = 2024, month = 3, day = 10, hour = 10, minute = 0, second = 0,
              microsecond = 0, tzinfo = None\<rparr>
   \<and> add_days \<lparr>year = 2024, month = 3, day = 10, hour = 10, minute = 0, second = 0,
                 microsecond = 0, tzinfo = None\<rparr> 30
       = Inr \<lparr>year = 2024, month = 4, day = 9, hour = 10, minute = 0, second = 0,
              microsecond = 0, tzinfo = None\<rparr>
   \<and> dt_greater \<lparr>year = 2024, month = 4, day = 9, hour = 10, minute = 0, second = 0,
                   microsecond = 0, tzinfo = None\<rparr> (datetime_now example_clock) = Inr True
   \<and> parse_charge_date python ''2023-01-01''
       = Inr \<lparr>year = 2023, month = 1, day = 1, hour = 0, minute = 0, second = 0,
              microsecond = 0, tzinfo = None\<rparr>
   \<and> add_days \<lparr>year = 2023, month = 1, day = 1, hour = 0, minute = 0, second = 0,
                 microsecond = 0, tzinfo = None\<rparr> 365
       = Inr \<lparr>year = 2024, month = 1, day = 1, hour = 0, minute = 0, second = 0,
              microsecond = 0, tzinfo = None\<rparr>
   \<and> dt_greater \<lparr>year = 2024, month = 1, day = 1, hour = 0, minute = 0, second = 0,
                   microsecond = 0, tzinfo = None\<rparr> (datetime_now example_clock) = Inr False"
proof -
  have v: "parse_charge_date python ''2024-03-10T10:00:00''
       = Inr \<lparr>year = 2024, month = 3, day = 10, hour = 10, minute = 0, second = 0,
              microsecond = 0, tzinfo = None\<rparr>"
    "add_days \<lparr>year = 2024, month = 3, day = 10, hour = 10, minute = 0, second = 0,
                 microsecond = 0, tzinfo = None\<rparr> 30
       = Inr \<lparr>year = 2024, month = 4, day = 9, hour = 10, minute = 0, second = 0,
              microsecond = 0, tzinfo = None\<rparr>"
    "dt_greater \<lparr>year = 2024, month = 4, day = 9, hour = 10, minute = 0, second = 0,
                   microsecond = 0, tzinfo = None\<rparr> (datetime_now example_clock) = Inr True"
    "parse_charge_date python ''2023-01-01''
       = Inr \<lparr>year = 2023, month = 1, day = 1, hour = 0, minute = 0, second = 0,
              microsecond = 0, tzinfo = None\<rparr>"
    "add_days \<lparr>year = 2023, month = 1, day = 1, hour = 0, minute = 0, second = 0,
                 microsecond = 0, tzinfo = None\<rparr> 365
       = Inr \<lparr>year = 2024, month = 1, day = 1, hour = 0, minute = 0, second = 0,
              microsecond = 0, tzinfo = None\<rparr>"
    "dt_greater \<lparr>year = 2024, month = 1, day = 1, hour = 0, minute = 0, second = 0,
                   microsecond = 0, tzinfo = None\<rparr> (datetime_now example_clock) = Inr False"
    by (simp_all add: eval_defs example_clock_def)
  note D = eligibility_gate [OF categorize_example, where k = "''one_month''"
      and b = "[alice, dave]" and p = dave and q = carol]
  note F = eligibility_gate [OF categorize_example, where k = "''one_month''"
      and b = "[alice, dave]" and p = dave and q = frank]
  have d: "last_payment_timestamp dave \<noteq> []
   \<and> (\<exists>d charge_date eligible_until.
         tier_of (pledge_amount_cents dave) = Some (d, ''one_month'')
         \<and> parse_charge_date python (last_payment_timestamp dave) = Inr charge_date
         \<and> add_days charge_date d = Inr eligible_until
         \<and> dt_greater eligible_until (datetime_now example_clock) = Inr True)"
    using D [THEN conjunct1] by simp
  have c0: "last_payment_timestamp carol = []
        \<or> (\<exists>e. parse_charge_date python (last_payment_timestamp carol) = Inl e)"
    by (simp add: carol_def)
  have c: "carol \<notin> set [alice, dave] \<and> carol \<notin> set [hank]"
    using D [THEN conjunct2, THEN conjunct1, THEN mp, OF c0] by simp
  have f0: "last_payment_timestamp frank = []
        \<or> (\<exists>e. parse_charge_date python (last_payment_timestamp frank) = Inl e)"
    by (simp add: frank_def eval_defs)
  have f: "frank \<notin> set [alice, dave] \<and> frank \<notin> set [hank]"
    using F [THEN conjunct2, THEN conjunct1, THEN mp, OF f0] by simp
  from d c f v show ?thesis by blast
qed

lemma csv_paths_distinct:
  "path_join data_dir ''one_month_mentions.csv'' \<noteq> path_join data_dir ''six_months_mentions.csv''"
  "path_join data_dir ''one_month_mentions.csv'' \<noteq> path_join data_dir ''one_year_mentions.csv''"
  "path_join data_dir ''six_months_mentions.csv'' \<noteq> path_join data_dir ''one_year_mentions.csv''"
  "path_join data_dir ''six_months_mentions.csv'' \<noteq> path_join data_dir ''one_month_mentions.csv''"
  "path_join data_dir ''one_year_mentions.csv'' \<noteq> path_join data_dir ''one_month_mentions.csv''"
  "path_join data_dir ''one_year_mentions.csv'' \<noteq> path_join data_dir ''six_months_mentions.csv''"
  by (simp_all add: path_join_def data_dir_def)

text \<open>
  C6. Whatever the mapping of \<^verbatim>\<open>str.lower\<close> is: when classification returns, the
  display names of every bucket, compared after \<^verbatim>\<open>lower()\<close>, are in ascending order. The rows of a tabular file are the rows of its
  bucket in the order of the bucket, so the names in the second column of each file are
  in that order too.
\<close>

theorem buckets_sorted:
  assumes "categorize_patrons lib clock patrons = Inr (cats, out)"
  shows "((k, b) \<in> set cats \<longrightarrow> sorted (map (\<lambda>p. lib_lower lib (displayed_name p)) b))
         \<and> (\<exists>fs' out'. write_csv_files lib cats files (fs, out1) = Inr (fs', out')
              \<and> ((k, path) \<in> set files \<longrightarrow>
                   (\<exists>b. (k, b) \<in> set cats
                      \<and> fs' path = Some (Csv (fieldnames # map (csv_row lib) b))
                      \<and> map (\<lambda>row. row ! 1) (map (csv_row lib) b) = map displayed_name b
                      \<and> sorted (map (\<lambda>row. lib_lower lib (row ! 1)) (map (csv_row lib) b)))))"
proof -
  let ?B = "\<lambda>k. sort_bucket lib (filter (accepted lib (datetime_now clock) k) patrons)"
  have c: "cats = map (\<lambda>k. (k, ?B k)) [''one_month'', ''six_months'', ''one_year'']"
    by (rule categorize_patrons_buckets[OF assms])
  have s: "sorted (map (\<lambda>p. lib_lower lib (displayed_name p)) b)" if "(k, b) \<in> set cats" for k b
    by (rule categorize_patrons_sorted[OF assms that])
  have r: "map (\<lambda>row. row ! 1) (map (csv_row lib) b) = map displayed_name b" for b
    by (simp add: csv_row_def comp_def)
  have r': "map (\<lambda>row. lib_lower lib (row ! 1)) (map (csv_row lib) b) = map (\<lambda>p. lib_lower lib (displayed_name p)) b"
    for b by (simp add: csv_row_def comp_def)
  let ?fs = "fs(path_join data_dir ''one_month_mentions.csv''
                   \<mapsto> Csv (fieldnames # map (csv_row lib) (?B ''one_month'')),
                 path_join data_dir ''six_months_mentions.csv''
                   \<mapsto> Csv (fieldnames # map (csv_row lib) (?B ''six_months'')),
                 path_join data_dir ''one_year_mentions.csv''
                   \<mapsto> Csv (fieldnames # map (csv_row lib) (?B ''one_year'')))"
  let ?out = "out1 @ [Updated (path_join data_dir ''one_month_mentions.csv'') (length (?B ''one_month'')),
                   Updated (path_join data_dir ''six_months_mentions.csv'') (length (?B ''six_months'')),
                   Updated (path_join data_dir ''one_year_mentions.csv'') (length (?B ''one_year''))]"
  have w: "write_csv_files lib cats files (fs, out1) = Inr (?fs, ?out)"
    by (simp only: c write_csv_files_buckets)
  have f: "\<exists>b. (k, b) \<in> set cats \<and> ?fs path = Some (Csv (fieldnames # map (csv_row lib) b))"
    if "(k, path) \<in> set files"
  proof -
    from that have "(k = ''one_month'' \<and> path = path_join data_dir ''one_month_mentions.csv'')
        \<or> (k = ''six_months'' \<and> path = path_join data_dir ''six_months_mentions.csv'')
        \<or> (k = ''one_year'' \<and> path = path_join data_dir ''one_year_mentions.csv'')"
      by (simp add: files_def)
    then show ?thesis
      by (elim disjE conjE) (simp_all add: c csv_paths_distinct)
  qed
  have g: "(k, path) \<in> set files \<longrightarrow>
                   (\<exists>b. (k, b) \<in> set cats
                      \<and> ?fs path = Some (Csv (fieldnames # map (csv_row lib) b))
                      \<and> map (\<lambda>row. row ! 1) (map (csv_row lib) b) = map displayed_name b
                      \<and> sorted (map (\<lambda>row. lib_lower lib (row ! 1)) (map (csv_row lib) b)))"
  proof
    assume "(k, path) \<in> set files"
    from f[OF this] obtain b where
      b: "(k, b) \<in> set cats" "?fs path = Some (Csv (fieldnames # map (csv_row lib) b))"
      by blast
    from s[OF b(1)] have "sorted (map (\<lambda>row. lib_lower lib (row ! 1)) (map (csv_row lib) b))"
      by (simp only: r')
    with b r show "\<exists>b. (k, b) \<in> set cats
                      \<and> ?fs path = Some (Csv (fieldnames # map (csv_row lib) b))
                      \<and> map (\<lambda>row. row ! 1) (map (csv_row lib) b) = map displayed_name b
                      \<and> sorted (map (\<lambda>row. lib_lower lib (row ! 1)) (map (csv_row lib) b))"
      by blast
  qed
  have s1: "(k, b) \<in> set cats \<longrightarrow> sorted (map (\<lambda>p. lib_lower lib (displayed_name p)) b)"
    using s by blast
  from w g have "\<exists>fs' out'. write_csv_files lib cats files (fs, out1) = Inr (fs', out')
              \<and> ((k, path) \<in> set files \<longrightarrow>
                   (\<exists>b. (k, b) \<in> set cats
                      \<and> fs' path = Some (Csv (fieldnames # map (csv_row lib) b))
                      \<and> map (\<lambda>row. row ! 1) (map (csv_row lib) b) = map displayed_name b
                      \<and> sorted (map (\<lambda>row. lib_lower lib (row ! 1)) (map (csv_row lib) b))))"
    by (intro exI conjI)
  with s1 show ?thesis by (rule conjI)
qed

theorem buckets_sorted_witness:
  "sorted (map (\<lambda>p. lib_lower python (displayed_name p)) [alice, dave])
   \<and> map displayed_name [alice, dave] = [''alice'', ''Dave'']
   \<and> \<not> sorted (map displayed_name [alice, dave])
   \<and> (\<exists>fs' out' b. write_csv_files python
          [(''one_month'', [alice, dave]), (''six_months'', [hank]), (''one_year'', [])]
          files (Map.empty, []) = Inr (fs', out')
        \<and> fs' (path_join data_dir ''one_month_mentions.csv'')
            = Some (Csv (fieldnames # map (csv_row python) b))
        \<and> sorted (map (\<lambda>row. lib_lower python (row ! 1)) (map (csv_row python) b)))"
proof -
  note S = buckets_sorted [OF categorize_example, where k = "''one_month''" and b = "[alice, dave]"
      and path = "path_join data_dir ''one_month_mentions.csv''" and fs = Map.empty and ?out1.0 = "[]"]
  have m: "(''one_month'', [alice, dave])
             \<in> set [(''one_month'', [alice, dave]), (''six_months'', [hank]), (''one_year'', [])]"
    by simp
  have a: "sorted (map (\<lambda>p. lib_lower python (displayed_name p)) [alice, dave])"
    by (rule S [THEN conjunct1, THEN mp, OF m])
  have n: "map displayed_name [alice, dave] = [''alice'', ''Dave'']"
    by (simp add: alice_def dave_def)
  have u: "\<not> sorted (map displayed_name [alice, dave])"
    by (simp add: alice_def dave_def)
  have p: "(''one_month'', path_join data_dir ''one_month_mentions.csv'') \<in> set files"
    by (simp add: files_def)
  have f: "\<exists>fs' out' b. write_csv_files python
          [(''one_month'', [alice, dave]), (''six_months'', [hank]), (''one_year'', [])]
          files (Map.empty, []) = Inr (fs', out')
        \<and> fs' (path_join data_dir ''one_month_mentions.csv'')
            = Some (Csv (fieldnames # map (csv_row python) b))
        \<and> sorted (map (\<lambda>row. lib_lower python (row ! 1)) (map (csv_row python) b))"
    using S [THEN conjunct2] p by blast
  from a n u f show ?thesis by blast
qed

section \<open>The fetch and its failures\<close>

lemma turns_fetch_loop:
  "turns srv token n st0 = Some st \<Longrightarrow> fetch_loop srv token st0 = fetch_loop srv token st"
proof (induction n arbitrary: st0)
  case 0
  then show ?case by simp
next
  case (Suc n)
  from Suc.prems obtain st1 where
    t: "url_truthy (fst st0)" and s: "fetch_step srv token st0 = Inr st1"
    and r: "turns srv token n st1 = Some st"
    by (auto split: if_splits sum.splits)
  have "fetch_loop srv token st0 = fetch_loop srv token st1"
    by (subst fetch_loop.simps) (simp add: t s)
  with Suc.IH[OF r] show ?case by simp
qed

lemma turns_Suc_front:
  "url_truthy (fst st0) \<Longrightarrow> fetch_step srv token st0 = Inr st1 \<Longrightarrow>
   turns srv token n st1 = Some st \<Longrightarrow> turns srv token (Suc n) st0 = Some st"
  by simp

lemma fetch_loop_complete_aux:
  assumes "fetch_loop srv token st0 = Some y"
  shows "\<forall>ps. y = Inr ps \<longrightarrow>
      (\<exists>n st. turns srv token n st0 = Some st \<and> \<not> url_truthy (fst st) \<and> ps = snd (snd st))"
proof -
  let ?P = "\<lambda>srv token st0 y. \<forall>ps. y = Inr ps \<longrightarrow>
      (\<exists>n st. turns srv token n st0 = Some st \<and> \<not> url_truthy (fst st) \<and> ps = snd (snd st))"
  have step: "?P srv token st0 y"
    if ih: "\<And>srv token st y. loop srv token st = Some y \<Longrightarrow> ?P srv token st y"
      and eq: "(if url_truthy (fst st0) then
                  (case fetch_step srv token st0 of
                     Inl e \<Rightarrow> Some (Inl e)
                   | Inr st' \<Rightarrow> loop srv token st')
                else Some (Inr (snd (snd st0)))) = Some y"
    for loop :: "server \<Rightarrow> string \<Rightarrow> loop_state \<Rightarrow> (raised + patron list) option"
      and srv token st0 y
  proof (intro allI impI)
    fix ps
    assume y: "y = Inr ps"
    show "\<exists>n st. turns srv token n st0 = Some st \<and> \<not> url_truthy (fst st) \<and> ps = snd (snd st)"
    proof (cases "url_truthy (fst st0)")
      case False
      with eq y have "ps = snd (snd st0)" by simp
      with False have "turns srv token 0 st0 = Some st0 \<and> \<not> url_truthy (fst st0)
          \<and> ps = snd (snd st0)"
        by simp
      then show ?thesis by blast
    next
      case True
      with eq y obtain st1 where s: "fetch_step srv token st0 = Inr st1"
        and l: "loop srv token st1 = Some (Inr ps)"
        by (auto split: sum.splits)
      from ih[OF l] obtain n st where
        "turns srv token n st1 = Some st" "\<not> url_truthy (fst st)" "ps = snd (snd st)"
        by blast
      with turns_Suc_front[OF True s] show ?thesis by blast
    qed
  qed
  show ?thesis
    by (rule fetch_loop.raw_induct[where P = ?P, OF step assms])
qed

lemma fetch_loop_complete:
  "fetch_loop srv token st0 = Some (Inr ps) \<Longrightarrow>
   \<exists>n st. turns srv token n st0 = Some st \<and> \<not> url_truthy (fst st) \<and> ps = snd (snd st)"
  using fetch_loop_complete_aux[of srv token st0 "Inr ps"] by blast

text \<open>
  How \<^verbatim>\<open>get_patrons\<close> ends when a turn of the loop raises after any number of pages: an
  exception of the \<^verbatim>\<open>requests\<close> library is printed and the empty list is returned,
  whatever was collected; any other exception leaves the function. And a list that
  \<^verbatim>\<open>get_patrons\<close> returns with patrons in it was collected by a walk that reached a page
  without a next link.
\<close>

lemma fetch_outcomes:
  assumes "token \<noteq> []" and "campaign_id \<noteq> []"
  shows "(turns srv token n (start_state campaign_id) = Some st \<and> url_truthy (fst st)
            \<and> fetch_step srv token st = Inl (Request_exception e) \<longrightarrow>
          get_patrons (Some token) (Some campaign_id) srv = Some (Inr ([], [Error_fetching e])))
         \<and> (turns srv token n (start_state campaign_id) = Some st \<and> url_truthy (fst st)
            \<and> fetch_step srv token st = Inl (Exception x) \<longrightarrow>
          get_patrons (Some token) (Some campaign_id) srv = Some (Inl x))
         \<and> (get_patrons (Some token) (Some campaign_id) srv = Some (Inr (ps, out)) \<and> ps \<noteq> [] \<longrightarrow>
             (\<exists>m st'. turns srv token m (start_state campaign_id) = Some st'
                \<and> \<not> url_truthy (fst st') \<and> ps = snd (snd st')))"
proof (intro conjI impI)
  assume a: "turns srv token n (start_state campaign_id) = Some st \<and> url_truthy (fst st)
            \<and> fetch_step srv token st = Inl (Request_exception e)"
  then have "fetch_loop srv token st = Some (Inl (Request_exception e))"
    by (subst fetch_loop.simps) simp
  with a turns_fetch_loop[of srv token n "start_state campaign_id" st]
  have "fetch_loop srv token (start_state campaign_id) = Some (Inl (Request_exception e))" by simp
  with assms show "get_patrons (Some token) (Some campaign_id) srv
      = Some (Inr ([], [Error_fetching e]))"
    by (simp add: get_patrons_def start_state_def)
next
  assume a: "turns srv token n (start_state campaign_id) = Some st \<and> url_truthy (fst st)
            \<and> fetch_step srv token st = Inl (Exception x)"
  then have "fetch_loop srv token st = Some (Inl (Exception x))"
    by (subst fetch_loop.simps) simp
  with a turns_fetch_loop[of srv token n "start_state campaign_id" st]
  have "fetch_loop srv token (start_state campaign_id) = Some (Inl (Exception x))" by simp
  with assms show "get_patrons (Some token) (Some campaign_id) srv = Some (Inl x)"
    by (simp add: get_patrons_def start_state_def)
next
  assume b: "get_patrons (Some token) (Some campaign_id) srv = Some (Inr (ps, out)) \<and> ps \<noteq> []"
  with assms have "fetch_loop srv token (start_state campaign_id) = Some (Inr ps)"
    by (auto simp: get_patrons_def start_state_def split: option.splits sum.splits raised.splits)
  from fetch_loop_complete[OF this]
  show "\<exists>m st'. turns srv token m (start_state campaign_id) = Some st'
                \<and> \<not> url_truthy (fst st') \<and> ps = snd (snd st')" .
qed

lemma first_page:
  "page_patrons \<lparr>included = [dave_user], data = [dave_member], next_link = l\<rparr> [] = Inr [dave]"
  by (simp add: page_patrons_def patron_info_def dave_member_def dave_user_def dave_def)

lemma failing_server_fetch:
  "turns failing_server ''tok'' 1 (start_state ''42'') = Some (Some ''page2'', False, [dave])"
  "fetch_step failing_server ''tok'' (Some ''page2'', False, [dave])
     = Inl (Request_exception (HTTPError 500))"
  "get_patrons (Some ''tok'') (Some ''42'') failing_server
     = Some (Inr ([], [Error_fetching (HTTPError 500)]))"
proof -
  show t: "turns failing_server ''tok'' 1 (start_state ''42'') = Some (Some ''page2'', False, [dave])"
    by (simp add: start_state_def BASE_URL_def url_truthy_def fetch_step_def failing_server_def
        example_url_def first_page)
  show s: "fetch_step failing_server ''tok'' (Some ''page2'', False, [dave])
     = Inl (Request_exception (HTTPError 500))"
    by (simp add: fetch_step_def failing_server_def example_url_def)
  have n: "''tok'' \<noteq> []" "''42'' \<noteq> []" by simp_all
  from fetch_outcomes[OF n, THEN conjunct1, of failing_server 1 "(Some ''page2'', False, [dave])"
      "HTTPError 500"] t s
  show "get_patrons (Some ''tok'') (Some ''42'') failing_server
     = Some (Inr ([], [Error_fetching (HTTPError 500)]))"
    by (simp add: url_truthy_def)
qed

lemma one_page_fetch:
  "get_patrons (Some ''tok'') (Some ''42'') one_page_server = Some (Inr ([dave], [Fetched 1]))"
proof -
  have a: "fetch_step one_page_server ''tok'' (start_state ''42'') = Inr (None, False, [dave])"
    by (simp add: start_state_def BASE_URL_def fetch_step_def one_page_server_def
        example_url_def first_page)
  have b: "fetch_loop one_page_server ''tok'' (None, False, [dave]) = Some (Inr [dave])"
    by (subst fetch_loop.simps) (simp add: url_truthy_def)
  have c: "fetch_loop one_page_server ''tok'' (start_state ''42'') = Some (Inr [dave])"
    by (subst fetch_loop.simps) (simp add: a b, simp add: start_state_def url_truthy_def)
  show ?thesis
    using c by (simp add: get_patrons_def start_state_def)
qed

lemma example_credentials: "load_config example_env None = ((Some ''tok'', Some ''42''), [])"
  by (simp add: load_config_def get_or_empty_def truthy_def example_env_def)

text \<open>
  C9. A run against a service whose first page holds an active patron and a next link,
  and whose second page is answered with a body that decodes but holds a member without
  attributes. After the first turn the patron of the first page is collected; in the
  second turn reading the status of the member raises \<^verbatim>\<open>KeyError\<close>, which is no
  \<^verbatim>\<open>RequestException\<close>. The exception leaves \<^verbatim>\<open>get_patrons\<close>, and \<^verbatim>\<open>main\<close> with it:
  no error is printed and no empty list is returned.
\<close>

theorem ill_shaped_page_raises:
  "turns ill_shaped_server ''tok'' 1 (start_state ''42'') = Some (Some ''page2'', False, [dave])
   \<and> fetch_step ill_shaped_server ''tok'' (Some ''page2'', False, [dave]) = Inl (Exception KeyError)
   \<and> get_patrons (Some ''tok'') (Some ''42'') ill_shaped_server = Some (Inl KeyError)
   \<and> main ill_shaped_world Map.empty = Some (Inl KeyError)"
proof -
  have t: "turns ill_shaped_server ''tok'' 1 (start_state ''42'')
             = Some (Some ''page2'', False, [dave])"
    by (simp add: start_state_def BASE_URL_def url_truthy_def fetch_step_def
        ill_shaped_server_def example_url_def first_page)
  have s: "fetch_step ill_shaped_server ''tok'' (Some ''page2'', False, [dave])
             = Inl (Exception KeyError)"
    by (simp add: fetch_step_def ill_shaped_server_def example_url_def page_patrons_def
        bare_member_def)
  have l2: "fetch_loop ill_shaped_server ''tok'' (Some ''page2'', False, [dave])
             = Some (Inl (Exception KeyError))"
    by (subst fetch_loop.simps) (simp add: s url_truthy_def)
  have l1: "fetch_loop ill_shaped_server ''tok'' (start_state ''42'')
             = Some (Inl (Exception KeyError))"
    using turns_fetch_loop[OF t] l2 by simp
  have g: "get_patrons (Some ''tok'') (Some ''42'') ill_shaped_server = Some (Inl KeyError)"
    using l1 by (simp add: get_patrons_def start_state_def)
  have m: "main ill_shaped_world Map.empty = Some (Inl KeyError)"
    by (simp add: main_def ill_shaped_world_def example_credentials g)
  from t s g m show ?thesis by simp
qed

section \<open>Whole runs\<close>

lemma categorize_dave:
  "categorize_patrons python example_clock [dave]
     = Inr ([(''one_month'', [dave]), (''six_months'', []), (''one_year'', [])], [])"
  by (simp add: categorize_patrons_def categorize_step_def tier_of_def
        empty_categories_def sort_bucket_def eligible_examples dave_def)

text \<open>
  C3. A run against a service with one page and one active member, whose last charge is
  dated \<^verbatim>\<open>2024-03-10T10:00:00\<close>. The entry of the structured file has the member id, the
  name and the label NOTUS, and its timestamp is the string as it was fetched, with the
  time of day, while the row of the tabular file has the bare date.
\<close>

theorem json_keeps_raw_timestamp:
  "main one_page_world Map.empty
     = Some (Inr (Map.empty
         (path_join data_dir ''one_month_mentions.csv''
            \<mapsto> Csv [fieldnames, [''m4'', ''Dave'', ''2024-03-10'']],
          path_join data_dir ''six_months_mentions.csv'' \<mapsto> Csv [fieldnames],
          path_join data_dir ''one_year_mentions.csv'' \<mapsto> Csv [fieldnames],
          json_path \<mapsto> Json [\<lparr>je_member_id = ''m4'', je_displayed_name = ''Dave'',
                               je_tier = ''NOTUS'',
                               je_last_payment_timestamp = ''2024-03-10T10:00:00''\<rparr>]),
         [Fetching_banner, Fetched 1, Categorizing_banner,
          Updated (path_join data_dir ''one_month_mentions.csv'') 1,
          Updated (path_join data_dir ''six_months_mentions.csv'') 0,
          Updated (path_join data_dir ''one_year_mentions.csv'') 0,
          Generated json_path 1, Summary 0 0 1]))"
proof -
  have ts: "csv_timestamp python ''2024-03-10T10:00:00'' = ''2024-03-10''"
    by (simp add: eval_defs)
  have row: "csv_row python dave = [''m4'', ''Dave'', ''2024-03-10'']"
    by (simp add: csv_row_def dave_def ts)
  have w: "write_csv_files python [(''one_month'', [dave]), (''six_months'', []), (''one_year'', [])]
             files (fs, out)
     = Inr (fs
         (path_join data_dir ''one_month_mentions.csv''
            \<mapsto> Csv [fieldnames, [''m4'', ''Dave'', ''2024-03-10'']],
          path_join data_dir ''six_months_mentions.csv'' \<mapsto> Csv [fieldnames],
          path_join data_dir ''one_year_mentions.csv'' \<mapsto> Csv [fieldnames]),
         out @ [Updated (path_join data_dir ''one_month_mentions.csv'') 1,
                Updated (path_join data_dir ''six_months_mentions.csv'') 0,
                Updated (path_join data_dir ''one_year_mentions.csv'') 0])" for fs out
    by (simp add: files_def write_csv_def row)
  have j: "all_patrons_data [(''one_month'', [dave]), (''six_months'', []), (''one_year'', [])]
     = Inr [\<lparr>je_member_id = ''m4'', je_displayed_name = ''Dave'', je_tier = ''NOTUS'',
             je_last_payment_timestamp = ''2024-03-10T10:00:00''\<rparr>]"
    by (simp add: tier_names_def json_entry_of_def dave_def)
  show ?thesis
    by (simp add: main_def one_page_world_def example_credentials one_page_fetch categorize_dave
          w j bucket_length_def del: all_patrons_data.simps write_csv_files.simps)
qed

text \<open>
  C1, as the claim states it, fails on a run without credentials that starts with no
  files: the run ends without an exception and the structured file holds the empty list,
  but none of the three tabular files is there afterwards.
\<close>

theorem no_credentials_run_writes_no_csv:
  "main no_credentials_world Map.empty
     = Some (Inr (Map.empty(json_path \<mapsto> Json []),
                  [Fetching_banner, Token_not_set, No_patrons_help, Generated_empty json_path]))
   \<and> (Map.empty(json_path \<mapsto> Json [])) (path_join data_dir ''one_month_mentions.csv'') = None
   \<and> (Map.empty(json_path \<mapsto> Json [])) (path_join data_dir ''six_months_mentions.csv'') = None
   \<and> (Map.empty(json_path \<mapsto> Json [])) (path_join data_dir ''one_year_mentions.csv'') = None"
proof (intro conjI)
  show "main no_credentials_world Map.empty
     = Some (Inr (Map.empty(json_path \<mapsto> Json []),
                  [Fetching_banner, Token_not_set, No_patrons_help, Generated_empty json_path]))"
    by (simp add: main_def no_credentials_world_def load_config_def get_or_empty_def
          truthy_def get_patrons_def)
qed (simp_all add: json_path_def path_join_def data_dir_def)

text \<open>
  C1, amended. When the fetch gives no patrons, as it does when the token or the campaign
  id is missing, the run ends without an exception, the structured file holds the empty
  list, and the three tabular files are not written: each is afterwards what it was
  before the run.
\<close>

theorem main_without_patrons:
  assumes "load_config (w_environ w) (w_config w) = ((token, campaign_id), out0)"
  shows "(get_patrons token campaign_id (w_server w) = Some (Inr ([], outf)) \<longrightarrow>
            main w fs = Some (Inr (fs(json_path \<mapsto> Json []),
                                   out0 @ [Fetching_banner] @ outf
                                     @ [No_patrons_help, Generated_empty json_path])))
         \<and> (\<not> truthy token \<or> \<not> truthy campaign_id \<longrightarrow>
              (\<exists>m. get_patrons token campaign_id (w_server w) = Some (Inr ([], [m]))))
         \<and> ((k, path) \<in> set files \<longrightarrow> (fs(json_path \<mapsto> Json [])) path = fs path)"
proof (intro conjI impI)
  assume "get_patrons token campaign_id (w_server w) = Some (Inr ([], outf))"
  with assms show "main w fs = Some (Inr (fs(json_path \<mapsto> Json []),
                                   out0 @ [Fetching_banner] @ outf
                                     @ [No_patrons_help, Generated_empty json_path]))"
    by (simp add: main_def)
next
  assume "\<not> truthy token \<or> \<not> truthy campaign_id"
  then show "\<exists>m. get_patrons token campaign_id (w_server w) = Some (Inr ([], [m]))"
    by (auto simp: get_patrons_def truthy_def split: option.splits)
next
  assume "(k, path) \<in> set files"
  then have "path \<noteq> json_path"
    by (auto simp: files_def json_path_def path_join_def data_dir_def)
  then show "(fs(json_path \<mapsto> Json [])) path = fs path"
    by simp
qed

theorem main_without_patrons_witness:
  "main no_credentials_world
      [path_join data_dir ''one_month_mentions.csv'' \<mapsto> Csv [fieldnames, [''m1'', ''alice'', ''2024-03-15'']]]
     = Some (Inr ([path_join data_dir ''one_month_mentions.csv''
                     \<mapsto> Csv [fieldnames, [''m1'', ''alice'', ''2024-03-15'']],
                   json_path \<mapsto> Json []],
                  [Fetching_banner, Token_not_set, No_patrons_help, Generated_empty json_path]))
   \<and> ([path_join data_dir ''one_month_mentions.csv''
          \<mapsto> Csv [fieldnames, [''m1'', ''alice'', ''2024-03-15'']],
        json_path \<mapsto> Json []]) (path_join data_dir ''one_month_mentions.csv'')
       = Some (Csv [fieldnames, [''m1'', ''alice'', ''2024-03-15'']])"
proof -
  let ?p = "path_join data_dir ''one_month_mentions.csv''"
  let ?fs = "[?p \<mapsto> Csv [fieldnames, [''m1'', ''alice'', ''2024-03-15'']]]"
  have lc: "load_config (w_environ no_credentials_world) (w_config no_credentials_world)
              = ((Some [], Some []), [])"
    by (simp add: no_credentials_world_def load_config_def get_or_empty_def truthy_def)
  note M = main_without_patrons [OF lc, where outf = "[Token_not_set]" and fs = ?fs
      and k = "''one_month''" and path = ?p]
  have g: "get_patrons (Some []) (Some []) (w_server no_credentials_world)
             = Some (Inr ([], [Token_not_set]))"
    by (simp add: get_patrons_def)
  have a: "main no_credentials_world ?fs
     = Some (Inr (?fs(json_path \<mapsto> Json []),
                  [Fetching_banner, Token_not_set, No_patrons_help, Generated_empty json_path]))"
    using M [THEN conjunct1, THEN mp, OF g] by simp
  have p: "(''one_month'', ?p) \<in> set files"
    by (simp add: files_def)
  have b: "(?fs(json_path \<mapsto> Json [])) ?p = ?fs ?p"
    by (rule M [THEN conjunct2, THEN conjunct2, THEN mp, OF p])
  from a b show ?thesis by simp
qed

section \<open>The tabular files\<close>


lemma two_digits_value: "n < 100 \<Longrightarrow> 10 * (n div 10 mod 10) + n mod 10 = (n::nat)"
proof -
  assume "n < 100"
  then have "n div 10 < 10" by simp
  then have "n div 10 mod 10 = n div 10" by simp
  then show ?thesis by simp
qed







end
